theory Spec2Isabelle
  imports Complex_Main
begin

section \<open>Binary operator nodes of the expression tree\<close>

text \<open>
  A shallow embedding of \<^verbatim>\<open>pybamm/expression_tree/binary_operators.py\<close>.
  Python exceptions are values of type \<open>error\<close> on the left of a sum; a function
  that can raise returns \<open>error + 'a\<close>.  The numeric library (numpy, scipy.sparse) and
  the parts of pybamm that live in other modules (the base class \<^verbatim>\<open>Symbol\<close>, the
  broadcasts, the overloaded operators, the constant folding) are parameters of the
  model: a record of functions that the definitions below take as an argument, so
  that every general theorem holds for all of them.
\<close>

subsection \<open>Errors\<close>

datatype error =
    DomainError
  | NotImplementedError
  | ZeroDivisionError
  | ValueError
  | TypeError
  | KeyError

definition bind_res :: "error + 'a \<Rightarrow> ('a \<Rightarrow> error + 'b) \<Rightarrow> error + 'b" where
  "bind_res m f = (case m of Inl e \<Rightarrow> Inl e | Inr x \<Rightarrow> f x)"

subsection \<open>Nodes\<close>

text \<open>
  A domain is a list of labels; the auxiliary domains are a dictionary from a role
  (\<^verbatim>\<open>"secondary"\<close>, ...) to a domain, kept as an association list.
\<close>

type_synonym domains = "string list"
type_synonym aux_domains = "(string \<times> string list) list"

text \<open>The concrete subclasses of \<^verbatim>\<open>BinaryOperator\<close> defined in the module.\<close>

datatype kind =
    Power
  | Addition
  | Subtraction
  | Multiplication
  | MatrixMultiplication
  | Division
  | Inner
  | EqualHeaviside
  | NotEqualHeaviside
  | Modulo
  | Minimum
  | Maximum

text \<open>The name each subclass passes to \<^verbatim>\<open>BinaryOperator.__init__\<close>.\<close>

fun name_of :: "kind \<Rightarrow> string" where
  "name_of Power = ''**''"
| "name_of Addition = ''+''"
| "name_of Subtraction = ''-''"
| "name_of Multiplication = ''*''"
| "name_of MatrixMultiplication = ''@''"
| "name_of Division = ''/''"
| "name_of Inner = ''inner product''"
| "name_of EqualHeaviside = ''<=''"
| "name_of NotEqualHeaviside = ''<''"
| "name_of Modulo = ''%''"
| "name_of Minimum = ''minimum''"
| "name_of Maximum = ''maximum''"

text \<open>
  The classes of unary node the module tests for or builds; every other unary class
  is \<open>UnaryC\<close> with its name.
\<close>

datatype unary_class = NegateC | PrimaryBroadcastC | UnaryC string

text \<open>
  The expression tree.  The type variable \<open>'v\<close> is the type of numeric values
  (numbers, dense arrays, sparse matrices).
  \<^item> \<open>Scalar v d\<close> is \<^verbatim>\<open>pybamm.Scalar(v, domain=d)\<close>;
  \<^item> \<open>Array v d a\<close> is a \<^verbatim>\<open>pybamm.Array\<close> (or its subclasses \<^verbatim>\<open>Matrix\<close>,
    \<^verbatim>\<open>Vector\<close>) with entries \<open>v\<close>;
  \<^item> \<open>Leaf n c d a\<close> is any other node without children (a variable, a state vector,
    a parameter, the time), of name \<open>n\<close>, whose \<^verbatim>\<open>is_constant()\<close> is \<open>c\<close>;
  \<^item> \<open>UnaryOperator c child d a\<close> is a node with one child;
  \<^item> \<open>BinaryOperator k left right d a\<close> is a node of this module.
  The last two arguments are the attributes \<^verbatim>\<open>domain\<close> and
  \<^verbatim>\<open>auxiliary_domains\<close> the node stores.
\<close>

datatype 'v symbol =
    Scalar 'v domains
  | Array 'v domains aux_domains
  | Leaf string bool domains aux_domains
  | UnaryOperator unary_class "'v symbol" domains aux_domains
  | BinaryOperator kind "'v symbol" "'v symbol" domains aux_domains

fun domain :: "'v symbol \<Rightarrow> domains" where
  "domain (Scalar v d) = d"
| "domain (Array v d a) = d"
| "domain (Leaf n c d a) = d"
| "domain (UnaryOperator c child d a) = d"
| "domain (BinaryOperator k l r d a) = d"

fun auxiliary_domains :: "'v symbol \<Rightarrow> aux_domains" where
  "auxiliary_domains (Scalar v d) = []"
| "auxiliary_domains (Array v d a) = a"
| "auxiliary_domains (Leaf n c d a) = a"
| "auxiliary_domains (UnaryOperator c child d a) = a"
| "auxiliary_domains (BinaryOperator k l r d a) = a"

text \<open>
  What Python passes to a constructor or an operator: a number, a node, or an
  object that is neither.
\<close>

datatype 'v operand = PyNumber 'v | PySymbol "'v symbol" | PyObject

subsection \<open>The collaborators of the module\<close>

text \<open>
  The functions of pybamm that the module calls and that are defined elsewhere.
  \<open>'e\<close> is the type of the evaluation inputs \<^verbatim>\<open>(t, y, y_dot, inputs)\<close> and
  \<open>'i\<close> the type of the node ids.
  \<^item> \<open>PrimaryBroadcast\<close>: the broadcast constructor (it can raise);
  \<^item> \<open>get_children_auxiliary_domains\<close>: the method of \<^verbatim>\<open>Symbol\<close> (it can raise);
  \<^item> \<open>symbol_id\<close>: the attribute \<^verbatim>\<open>id\<close>, a hash of the node;
  \<^item> \<open>base_evaluate\<close>: \<^verbatim>\<open>_base_evaluate\<close> of a node without children;
  \<^item> \<open>unary_evaluate\<close>: \<^verbatim>\<open>_unary_evaluate\<close> of a unary node, given the child's value;
  \<^item> \<open>symbol_str\<close>: \<^verbatim>\<open>__str__\<close> of the nodes that are not binary operators.
\<close>

record ('e, 'v, 'i) pybamm =
  PrimaryBroadcast :: "'v symbol \<Rightarrow> domains \<Rightarrow> error + 'v symbol"
  get_children_auxiliary_domains :: "'v symbol list \<Rightarrow> error + aux_domains"
  symbol_id :: "'v symbol \<Rightarrow> 'i"
  base_evaluate :: "'e \<Rightarrow> 'v symbol \<Rightarrow> error + 'v"
  unary_evaluate :: "'v symbol \<Rightarrow> 'v \<Rightarrow> error + 'v"
  symbol_str :: "'v symbol \<Rightarrow> string"

subsection \<open>Construction\<close>

text \<open>\<^verbatim>\<open>BinaryOperator.get_children_domains\<close>.\<close>

definition get_children_domains :: "domains \<Rightarrow> domains \<Rightarrow> error + domains" where
  "get_children_domains ldomain rdomain =
     (if ldomain = rdomain then Inr ldomain
      else if ldomain = [] then Inr rdomain
      else if rdomain = [] then Inr ldomain
      else Inl DomainError)"

text \<open>
  \<^verbatim>\<open>BinaryOperator.format\<close>: numbers become scalars, anything that is not a node is
  refused, and a child whose domain is the other child's secondary domain is
  broadcast to the other child's domain.  The second test reads the left child as
  the first test left it.
\<close>

definition to_symbol :: "'v operand \<Rightarrow> 'v operand" where
  "to_symbol x = (case x of PyNumber n \<Rightarrow> PySymbol (Scalar n []) | _ \<Rightarrow> x)"

definition format :: "('e, 'v, 'i) pybamm \<Rightarrow> 'v operand \<Rightarrow> 'v operand \<Rightarrow> error + ('v symbol \<times> 'v symbol)" where
  "format P left right =
     (case (to_symbol left, to_symbol right) of
        (PySymbol l, PySymbol r) \<Rightarrow>
          if domain l \<noteq> [] \<and> domain r \<noteq> [] then
            bind_res
              (if domain l \<noteq> domain r
                  \<and> map_of (auxiliary_domains r) ''secondary'' \<noteq> None
                  \<and> Some (domain l) = map_of (auxiliary_domains r) ''secondary''
               then PrimaryBroadcast P l (domain r) else Inr l)
              (\<lambda>l'. bind_res
                 (if domain r \<noteq> domain l'
                     \<and> map_of (auxiliary_domains l') ''secondary'' \<noteq> None
                     \<and> Some (domain r) = map_of (auxiliary_domains l') ''secondary''
                  then PrimaryBroadcast P r (domain l') else Inr r)
                 (\<lambda>r'. Inr (l', r')))
          else Inr (l, r)
      | _ \<Rightarrow> Inl NotImplementedError)"

text \<open>
  \<^verbatim>\<open>BinaryOperator.__init__\<close>, as the subclass of kind \<open>k\<close> calls it: format the
  children, combine their domains, combine their auxiliary domains, build the node.
\<close>

definition init :: "('e, 'v, 'i) pybamm \<Rightarrow> kind \<Rightarrow> 'v operand \<Rightarrow> 'v operand \<Rightarrow> error + 'v symbol" where
  "init P k left right =
     bind_res (format P left right) (\<lambda>(l, r).
     bind_res (get_children_domains (domain l) (domain r)) (\<lambda>d.
     bind_res (get_children_auxiliary_domains P [l, r]) (\<lambda>a.
     Inr (BinaryOperator k l r d a))))"

subsection \<open>The numeric library\<close>

text \<open>
  The operations of numpy and scipy.sparse that the module calls, on values of type
  \<open>'v\<close>.  Each can raise.  A binary operation is computed under an error state:
  \<open>InvalidIgnore\<close> is \<^verbatim>\<open>with np.errstate(invalid="ignore")\<close>, \<open>ErrDefault\<close> is
  the state of the caller.
  \<^item> \<open>np_binary st op x y\<close>: \<^verbatim>\<open>x op y\<close> (or \<^verbatim>\<open>np.minimum(x, y)\<close>,
    \<^verbatim>\<open>np.maximum(x, y)\<close>) under the error state \<open>st\<close>;
  \<^item> \<open>sp_multiply x y\<close>: \<^verbatim>\<open>x.multiply(y)\<close>, the method of a sparse matrix \<open>x\<close>;
  \<^item> \<open>csr_matrix x\<close>: \<^verbatim>\<open>scipy.sparse.csr_matrix(x)\<close>;
  \<^item> \<open>issparse x\<close>: \<^verbatim>\<open>scipy.sparse.issparse(x)\<close>;
  \<^item> \<open>is_number x\<close>: \<^verbatim>\<open>isinstance(x, numbers.Number)\<close>;
  \<^item> \<open>eq_zero x\<close>: \<^verbatim>\<open>x == 0\<close>, read only for a number \<open>x\<close>;
  \<^item> \<open>np_inf\<close>: \<^verbatim>\<open>np.inf\<close>; \<open>py_int i\<close>: the Python integer \<open>i\<close> as a value.
\<close>

datatype errstate = ErrDefault | InvalidIgnore

datatype np_op =
    NpPow | NpAdd | NpSub | NpMul | NpMatMul | NpTrueDiv | NpMod
  | NpLe | NpLt | NpMinimum | NpMaximum

record 'v numeric =
  np_binary :: "errstate \<Rightarrow> np_op \<Rightarrow> 'v \<Rightarrow> 'v \<Rightarrow> error + 'v"
  sp_multiply :: "'v \<Rightarrow> 'v \<Rightarrow> error + 'v"
  csr_matrix :: "'v \<Rightarrow> error + 'v"
  issparse :: "'v \<Rightarrow> bool"
  is_number :: "'v \<Rightarrow> bool"
  eq_zero :: "'v \<Rightarrow> bool"
  np_inf :: "'v"
  py_int :: "int \<Rightarrow> 'v"

subsection \<open>Numeric evaluation\<close>

text \<open>
  \<^verbatim>\<open>_binary_evaluate\<close> of each subclass.  In \<^verbatim>\<open>Division\<close> the reciprocal
  \<^verbatim>\<open>1 / right\<close> is computed before \<^verbatim>\<open>left.multiply\<close> is called, and the test for
  a zero divisor stands in the branch of a left value that is not sparse.
\<close>

fun binary_evaluate :: "'v numeric \<Rightarrow> kind \<Rightarrow> 'v \<Rightarrow> 'v \<Rightarrow> error + 'v" where
  "binary_evaluate N Power left right = np_binary N InvalidIgnore NpPow left right"
| "binary_evaluate N Addition left right = np_binary N ErrDefault NpAdd left right"
| "binary_evaluate N Subtraction left right = np_binary N ErrDefault NpSub left right"
| "binary_evaluate N Multiplication left right =
     (if issparse N left then bind_res (sp_multiply N left right) (csr_matrix N)
      else if issparse N right then bind_res (sp_multiply N right left) (csr_matrix N)
      else np_binary N ErrDefault NpMul left right)"
| "binary_evaluate N MatrixMultiplication left right =
     np_binary N ErrDefault NpMatMul left right"
| "binary_evaluate N Division left right =
     (if issparse N left then
        bind_res (np_binary N ErrDefault NpTrueDiv (py_int N 1) right) (\<lambda>reciprocal.
        bind_res (sp_multiply N left reciprocal) (csr_matrix N))
      else if is_number N right \<and> eq_zero N right then
        np_binary N InvalidIgnore NpMul left (np_inf N)
      else np_binary N ErrDefault NpTrueDiv left right)"
| "binary_evaluate N Inner left right =
     (if issparse N left then sp_multiply N left right
      else if issparse N right then sp_multiply N right left
      else np_binary N ErrDefault NpMul left right)"
| "binary_evaluate N EqualHeaviside left right = np_binary N InvalidIgnore NpLe left right"
| "binary_evaluate N NotEqualHeaviside left right = np_binary N InvalidIgnore NpLt left right"
| "binary_evaluate N Modulo left right = np_binary N ErrDefault NpMod left right"
| "binary_evaluate N Minimum left right = np_binary N ErrDefault NpMinimum left right"
| "binary_evaluate N Maximum left right = np_binary N ErrDefault NpMaximum left right"

text \<open>
  \<^verbatim>\<open>BinaryOperator.evaluate\<close> without a dictionary of known evaluations
  (\<^verbatim>\<open>known_evals=None\<close>): the left child, the right child, then the operation.
  The first four equations are modelled from the spec: the nodes that are not binary
  operators evaluate as the base class does, a node without children by
  \<^verbatim>\<open>_base_evaluate\<close>, a unary node by \<^verbatim>\<open>_unary_evaluate\<close> of its child's value.
\<close>

fun evaluate :: "('e, 'v, 'i) pybamm \<Rightarrow> 'v numeric \<Rightarrow> 'e \<Rightarrow> 'v symbol \<Rightarrow> error + 'v" where
  "evaluate P N env (Scalar v d) = Inr v"
| "evaluate P N env (Array v d a) = Inr v"
| "evaluate P N env (Leaf n c d a) = base_evaluate P env (Leaf n c d a)"
| "evaluate P N env (UnaryOperator c child d a) =
     (case evaluate P N env child of
        Inl e \<Rightarrow> Inl e
      | Inr v \<Rightarrow> unary_evaluate P (UnaryOperator c child d a) v)"
| "evaluate P N env (BinaryOperator k l r d a) =
     (case evaluate P N env l of
        Inl e \<Rightarrow> Inl e
      | Inr left \<Rightarrow>
          (case evaluate P N env r of
             Inl e \<Rightarrow> Inl e
           | Inr right \<Rightarrow> binary_evaluate N k left right))"

text \<open>
  \<^verbatim>\<open>BinaryOperator.evaluate\<close> with a dictionary \<^verbatim>\<open>known_evals\<close> from node ids to
  values.  A binary operator returns the stored value of its id when there is one;
  otherwise it evaluates the left child, then the right child with the dictionary
  the left child returned, stores the result under its id and returns it with the
  dictionary.  The first four equations are modelled from the spec: the other nodes
  look their id up, compute and store in the same way.  Python updates the
  dictionary in place; here it is passed on and returned, and an exception returns
  no dictionary.
\<close>

fun evaluate_known_evals ::
  "('e, 'v, 'i) pybamm \<Rightarrow> 'v numeric \<Rightarrow> 'e \<Rightarrow> 'v symbol \<Rightarrow> ('i \<rightharpoonup> 'v) \<Rightarrow> error + ('v \<times> ('i \<rightharpoonup> 'v))"
where
  "evaluate_known_evals P N env (Scalar v d) known_evals =
     (case known_evals (symbol_id P (Scalar v d)) of
        Some w \<Rightarrow> Inr (w, known_evals)
      | None \<Rightarrow> Inr (v, known_evals(symbol_id P (Scalar v d) \<mapsto> v)))"
| "evaluate_known_evals P N env (Array v d a) known_evals =
     (case known_evals (symbol_id P (Array v d a)) of
        Some w \<Rightarrow> Inr (w, known_evals)
      | None \<Rightarrow> Inr (v, known_evals(symbol_id P (Array v d a) \<mapsto> v)))"
| "evaluate_known_evals P N env (Leaf n c d a) known_evals =
     (case known_evals (symbol_id P (Leaf n c d a)) of
        Some w \<Rightarrow> Inr (w, known_evals)
      | None \<Rightarrow>
          (case base_evaluate P env (Leaf n c d a) of
             Inl e \<Rightarrow> Inl e
           | Inr v \<Rightarrow> Inr (v, known_evals(symbol_id P (Leaf n c d a) \<mapsto> v))))"
| "evaluate_known_evals P N env (UnaryOperator c child d a) known_evals =
     (case known_evals (symbol_id P (UnaryOperator c child d a)) of
        Some w \<Rightarrow> Inr (w, known_evals)
      | None \<Rightarrow>
          (case evaluate_known_evals P N env child known_evals of
             Inl e \<Rightarrow> Inl e
           | Inr (v, known_evals1) \<Rightarrow>
               (case unary_evaluate P (UnaryOperator c child d a) v of
                  Inl e \<Rightarrow> Inl e
                | Inr w \<Rightarrow>
                    Inr (w, known_evals1(symbol_id P (UnaryOperator c child d a) \<mapsto> w)))))"
| "evaluate_known_evals P N env (BinaryOperator k l r d a) known_evals =
     (case known_evals (symbol_id P (BinaryOperator k l r d a)) of
        Some w \<Rightarrow> Inr (w, known_evals)
      | None \<Rightarrow>
          (case evaluate_known_evals P N env l known_evals of
             Inl e \<Rightarrow> Inl e
           | Inr (left, known_evals1) \<Rightarrow>
               (case evaluate_known_evals P N env r known_evals1 of
                  Inl e \<Rightarrow> Inl e
                | Inr (right, known_evals2) \<Rightarrow>
                    (case binary_evaluate N k left right of
                       Inl e \<Rightarrow> Inl e
                     | Inr v \<Rightarrow>
                         Inr (v, known_evals2(symbol_id P (BinaryOperator k l r d a) \<mapsto> v))))))"

subsection \<open>Constancy and copies\<close>

text \<open>
  \<^verbatim>\<open>BinaryOperator.is_constant\<close>; no subclass overrides it.  The first four
  equations are modelled from the spec: a scalar and an array are constant, a unary
  node is as constant as its child.
\<close>

fun is_constant :: "'v symbol \<Rightarrow> bool" where
  "is_constant (Scalar v d) = True"
| "is_constant (Array v d a) = True"
| "is_constant (Leaf n c d a) = c"
| "is_constant (UnaryOperator c child d a) = is_constant child"
| "is_constant (BinaryOperator k l r d a) = (is_constant l \<and> is_constant r)"

text \<open>
  Modelled from the spec: \<^verbatim>\<open>out.copy_domains(self)\<close> of the base class sets the
  domain and the auxiliary domains of \<open>out\<close> to those of \<open>self\<close>.
\<close>

fun copy_domains :: "'v symbol \<Rightarrow> 'v symbol \<Rightarrow> 'v symbol" where
  "copy_domains (Scalar v d) s = Scalar v (domain s)"
| "copy_domains (Array v d a) s = Array v (domain s) (auxiliary_domains s)"
| "copy_domains (Leaf n c d a) s = Leaf n c (domain s) (auxiliary_domains s)"
| "copy_domains (UnaryOperator c child d a) s =
     UnaryOperator c child (domain s) (auxiliary_domains s)"
| "copy_domains (BinaryOperator k l r d a) s =
     BinaryOperator k l r (domain s) (auxiliary_domains s)"

text \<open>
  \<^verbatim>\<open>BinaryOperator.new_copy\<close> with \<^verbatim>\<open>_binary_new_copy\<close>, which calls the
  constructor of the node's own class on the copies of the children, then
  \<^verbatim>\<open>copy_domains\<close>.  The first four equations are modelled from the spec: a node
  without children copies to itself, a unary node to the same node over the copy of
  its child.  A value of the model has no address, so a copy is told from its
  original only by what it holds.
\<close>

fun new_copy :: "('e, 'v, 'i) pybamm \<Rightarrow> 'v symbol \<Rightarrow> error + 'v symbol" where
  "new_copy P (Scalar v d) = Inr (Scalar v d)"
| "new_copy P (Array v d a) = Inr (Array v d a)"
| "new_copy P (Leaf n c d a) = Inr (Leaf n c d a)"
| "new_copy P (UnaryOperator c child d a) =
     (case new_copy P child of
        Inl e \<Rightarrow> Inl e
      | Inr new_child \<Rightarrow> Inr (UnaryOperator c new_child d a))"
| "new_copy P (BinaryOperator k l r d a) =
     (case new_copy P l of
        Inl e \<Rightarrow> Inl e
      | Inr new_left \<Rightarrow>
          (case new_copy P r of
             Inl e \<Rightarrow> Inl e
           | Inr new_right \<Rightarrow>
               (case init P k (PySymbol new_left) (PySymbol new_right) of
                  Inl e \<Rightarrow> Inl e
                | Inr out \<Rightarrow> Inr (copy_domains out (BinaryOperator k l r d a)))))"

text \<open>
  The trees the constructors build: at every binary operator the domains of the
  two children combine and so do their auxiliary domains.  The domain a node stores
  is free: \<^verbatim>\<open>copy_domains\<close> can set it to any value.
\<close>

fun well_formed :: "('e, 'v, 'i) pybamm \<Rightarrow> 'v symbol \<Rightarrow> bool" where
  "well_formed P (Scalar v d) = True"
| "well_formed P (Array v d a) = True"
| "well_formed P (Leaf n c d a) = True"
| "well_formed P (UnaryOperator c child d a) = well_formed P child"
| "well_formed P (BinaryOperator k l r d a) =
     (well_formed P l \<and> well_formed P r
      \<and> \<not> isl (get_children_domains (domain l) (domain r))
      \<and> \<not> isl (get_children_auxiliary_domains P [l, r]))"

subsection \<open>The operators and functions on nodes\<close>

text \<open>
  The module builds its results with Python's operators on nodes (which the base
  class overloads), with functions of pybamm, and under the global settings:
  \<^item> \<open>py_binop op x y\<close>: \<^verbatim>\<open>x op y\<close> for operands that are numbers or nodes;
  \<^item> \<open>py_neg x\<close>: \<^verbatim>\<open>-x\<close>;
  \<^item> \<open>pybamm_log\<close>, \<open>pybamm_exp\<close>, \<open>pybamm_Floor\<close>: \<^verbatim>\<open>pybamm.log\<close>,
    \<^verbatim>\<open>pybamm.exp\<close>, \<^verbatim>\<open>pybamm.Floor\<close>;
  \<^item> \<open>pybamm_is_constant\<close>: the function \<^verbatim>\<open>pybamm.is_constant\<close>;
  \<^item> \<open>evaluates_to_constant_number\<close>: the method of \<^verbatim>\<open>Symbol\<close>;
  \<^item> \<open>simplify_if_constant\<close>: \<^verbatim>\<open>pybamm.simplify_if_constant(x, clear_domains=False)\<close>;
  \<^item> \<open>min_smoothing\<close>, \<open>max_smoothing\<close>: the two fields of \<^verbatim>\<open>pybamm.settings\<close>,
    the string \<^verbatim>\<open>"exact"\<close> or a coefficient;
  \<^item> \<open>no_inputs\<close>: the inputs of a call \<^verbatim>\<open>evaluate()\<close> without arguments.
\<close>

datatype bin_op = OpAdd | OpSub | OpMul | OpMatMul | OpTrueDiv | OpPow | OpLe | OpLt | OpGe | OpGt

datatype 'v smoothing = Exact | Smoothing 'v

record ('e, 'v) algebra =
  py_binop :: "bin_op \<Rightarrow> 'v operand \<Rightarrow> 'v operand \<Rightarrow> error + 'v operand"
  py_neg :: "'v operand \<Rightarrow> error + 'v operand"
  pybamm_log :: "'v operand \<Rightarrow> error + 'v operand"
  pybamm_exp :: "'v operand \<Rightarrow> error + 'v operand"
  pybamm_Floor :: "'v operand \<Rightarrow> error + 'v operand"
  pybamm_is_constant :: "'v operand \<Rightarrow> bool"
  evaluates_to_constant_number :: "'v symbol \<Rightarrow> bool"
  simplify_if_constant :: "'v operand \<Rightarrow> error + 'v operand"
  min_smoothing :: "'v smoothing"
  max_smoothing :: "'v smoothing"
  no_inputs :: "'e"

subsection \<open>Differentiation\<close>

text \<open>
  \<^verbatim>\<open>diff\<close>: \<^verbatim>\<open>MatrixMultiplication\<close> overrides it to raise, the two Heaviside
  classes override it to return the scalar zero, every other class inherits
  \<^verbatim>\<open>Symbol.diff\<close>, the argument \<open>symbol_diff\<close>.
\<close>

fun diff ::
  "('v symbol \<Rightarrow> 'v symbol \<Rightarrow> error + 'v symbol) \<Rightarrow> 'v numeric \<Rightarrow> 'v symbol \<Rightarrow> 'v symbol
     \<Rightarrow> error + 'v symbol" where
  "diff symbol_diff N (BinaryOperator MatrixMultiplication l r d a) variable =
     Inl NotImplementedError"
| "diff symbol_diff N (BinaryOperator EqualHeaviside l r d a) variable =
     Inr (Scalar (py_int N 0) [])"
| "diff symbol_diff N (BinaryOperator NotEqualHeaviside l r d a) variable =
     Inr (Scalar (py_int N 0) [])"
| "diff symbol_diff N s variable = symbol_diff s variable"

text \<open>
  Modelled from the spec: the property \<^verbatim>\<open>orphans\<close> of the base class gives, for a
  binary operator, copies of the two children, left then right.
\<close>

definition orphans :: "('e, 'v, 'i) pybamm \<Rightarrow> 'v symbol \<Rightarrow> 'v symbol \<Rightarrow> error + ('v symbol \<times> 'v symbol)" where
  "orphans P l r =
     bind_res (new_copy P l) (\<lambda>left. bind_res (new_copy P r) (\<lambda>right. Inr (left, right)))"

text \<open>\<^verbatim>\<open>isinstance(left, pybamm.Array)\<close> and the test for the negation of an array.\<close>

fun is_Array :: "'v symbol \<Rightarrow> bool" where
  "is_Array (Array v d a) = True"
| "is_Array s = False"

fun is_Negate_of_Array :: "'v symbol \<Rightarrow> bool" where
  "is_Negate_of_Array (UnaryOperator NegateC child d a) = is_Array child"
| "is_Negate_of_Array s = False"

text \<open>
  \<^verbatim>\<open>_binary_jac\<close> of each subclass, for the node with children \<open>l\<close> and \<open>r\<close>.
  Python evaluates the operands of an expression from left to right.
\<close>

definition jac_product ::
  "('e, 'v, 'i) pybamm \<Rightarrow> ('e, 'v) algebra \<Rightarrow> 'v numeric \<Rightarrow> 'v symbol \<Rightarrow> 'v symbol
     \<Rightarrow> 'v operand \<Rightarrow> 'v operand \<Rightarrow> error + 'v operand" where
  "jac_product P A N l r left_jac right_jac =
     bind_res (orphans P l r) (\<lambda>(left, right).
       if evaluates_to_constant_number A left \<and> evaluates_to_constant_number A right then
         Inr (PySymbol (Scalar (py_int N 0) []))
       else if evaluates_to_constant_number A left then
         py_binop A OpMul (PySymbol left) right_jac
       else if evaluates_to_constant_number A right then
         py_binop A OpMul (PySymbol right) left_jac
       else
         bind_res (py_binop A OpMul (PySymbol right) left_jac) (\<lambda>x.
         bind_res (py_binop A OpMul (PySymbol left) right_jac) (\<lambda>y.
         py_binop A OpAdd x y)))"

fun binary_jac ::
  "('e, 'v, 'i) pybamm \<Rightarrow> ('e, 'v) algebra \<Rightarrow> 'v numeric \<Rightarrow> kind \<Rightarrow> 'v symbol \<Rightarrow> 'v symbol
     \<Rightarrow> 'v operand \<Rightarrow> 'v operand \<Rightarrow> error + 'v operand" where
  "binary_jac P A N Power l r left_jac right_jac =
     bind_res (orphans P l r) (\<lambda>(left, right).
       if evaluates_to_constant_number A left \<and> evaluates_to_constant_number A right then
         Inr (PySymbol (Scalar (py_int N 0) []))
       else if evaluates_to_constant_number A right then
         bind_res (py_binop A OpSub (PySymbol right) (PyNumber (py_int N 1))) (\<lambda>e.
         bind_res (py_binop A OpPow (PySymbol left) e) (\<lambda>p.
         bind_res (py_binop A OpMul (PySymbol right) p) (\<lambda>x.
         py_binop A OpMul x left_jac)))
       else if evaluates_to_constant_number A left then
         bind_res (py_binop A OpPow (PySymbol left) (PySymbol right)) (\<lambda>p.
         bind_res (pybamm_log A (PySymbol left)) (\<lambda>lg.
         bind_res (py_binop A OpMul p lg) (\<lambda>x.
         py_binop A OpMul x right_jac)))
       else
         bind_res (py_binop A OpSub (PySymbol right) (PyNumber (py_int N 1))) (\<lambda>e.
         bind_res (py_binop A OpPow (PySymbol left) e) (\<lambda>p.
         bind_res (py_binop A OpMul (PySymbol right) left_jac) (\<lambda>x.
         bind_res (pybamm_log A (PySymbol left)) (\<lambda>lg.
         bind_res (py_binop A OpMul (PySymbol left) lg) (\<lambda>y.
         bind_res (py_binop A OpMul y right_jac) (\<lambda>z.
         bind_res (py_binop A OpAdd x z) (\<lambda>s.
         py_binop A OpMul p s))))))))"
| "binary_jac P A N Addition l r left_jac right_jac = py_binop A OpAdd left_jac right_jac"
| "binary_jac P A N Subtraction l r left_jac right_jac = py_binop A OpSub left_jac right_jac"
| "binary_jac P A N Multiplication l r left_jac right_jac =
     jac_product P A N l r left_jac right_jac"
| "binary_jac P A N MatrixMultiplication l r left_jac right_jac =
     bind_res (orphans P l r) (\<lambda>(left, right).
       if is_Array left \<or> is_Negate_of_Array left then
         bind_res (evaluate P N (no_inputs A) left) (\<lambda>v.
         bind_res (csr_matrix N v) (\<lambda>m.
         py_binop A OpMatMul (PySymbol (Array m [] [])) right_jac))
       else Inl NotImplementedError)"
| "binary_jac P A N Division l r left_jac right_jac =
     bind_res (orphans P l r) (\<lambda>(left, right).
       if evaluates_to_constant_number A left \<and> evaluates_to_constant_number A right then
         Inr (PySymbol (Scalar (py_int N 0) []))
       else if evaluates_to_constant_number A left then
         bind_res (py_neg A (PySymbol left)) (\<lambda>n.
         bind_res (py_binop A OpPow (PySymbol right) (PyNumber (py_int N 2))) (\<lambda>p.
         bind_res (py_binop A OpTrueDiv n p) (\<lambda>q.
         py_binop A OpMul q right_jac)))
       else if evaluates_to_constant_number A right then
         py_binop A OpTrueDiv left_jac (PySymbol right)
       else
         bind_res (py_binop A OpMul (PySymbol right) left_jac) (\<lambda>x.
         bind_res (py_binop A OpMul (PySymbol left) right_jac) (\<lambda>y.
         bind_res (py_binop A OpSub x y) (\<lambda>n.
         bind_res (py_binop A OpPow (PySymbol right) (PyNumber (py_int N 2))) (\<lambda>p.
         py_binop A OpTrueDiv n p)))))"
| "binary_jac P A N Inner l r left_jac right_jac = jac_product P A N l r left_jac right_jac"
| "binary_jac P A N EqualHeaviside l r left_jac right_jac =
     Inr (PySymbol (Scalar (py_int N 0) []))"
| "binary_jac P A N NotEqualHeaviside l r left_jac right_jac =
     Inr (PySymbol (Scalar (py_int N 0) []))"
| "binary_jac P A N Modulo l r left_jac right_jac =
     bind_res (orphans P l r) (\<lambda>(left, right).
       if evaluates_to_constant_number A left \<and> evaluates_to_constant_number A right then
         Inr (PySymbol (Scalar (py_int N 0) []))
       else if evaluates_to_constant_number A right then Inr left_jac
       else if evaluates_to_constant_number A left then
         bind_res (py_neg A right_jac) (\<lambda>n.
         bind_res (py_binop A OpTrueDiv (PySymbol left) (PySymbol right)) (\<lambda>q.
         bind_res (pybamm_Floor A q) (\<lambda>f.
         py_binop A OpMul n f)))
       else
         bind_res (py_binop A OpTrueDiv (PySymbol left) (PySymbol right)) (\<lambda>q.
         bind_res (pybamm_Floor A q) (\<lambda>f.
         bind_res (py_binop A OpMul right_jac f) (\<lambda>x.
         py_binop A OpSub left_jac x))))"
| "binary_jac P A N Minimum l r left_jac right_jac =
     bind_res (orphans P l r) (\<lambda>(left, right).
       bind_res (py_binop A OpLe (PySymbol left) (PySymbol right)) (\<lambda>c.
       bind_res (py_binop A OpMul c left_jac) (\<lambda>x.
       bind_res (py_binop A OpGt (PySymbol left) (PySymbol right)) (\<lambda>c'.
       bind_res (py_binop A OpMul c' right_jac) (\<lambda>y.
       py_binop A OpAdd x y)))))"
| "binary_jac P A N Maximum l r left_jac right_jac =
     bind_res (orphans P l r) (\<lambda>(left, right).
       bind_res (py_binop A OpGe (PySymbol left) (PySymbol right)) (\<lambda>c.
       bind_res (py_binop A OpMul c left_jac) (\<lambda>x.
       bind_res (py_binop A OpLt (PySymbol left) (PySymbol right)) (\<lambda>c'.
       bind_res (py_binop A OpMul c' right_jac) (\<lambda>y.
       py_binop A OpAdd x y)))))"

subsection \<open>Printing\<close>

text \<open>
  \<^verbatim>\<open>__str__\<close>.  The two Heaviside classes, \<^verbatim>\<open>Modulo\<close>, \<^verbatim>\<open>Minimum\<close> and
  \<^verbatim>\<open>Maximum\<close> override it and never add brackets; the other classes inherit
  \<^verbatim>\<open>BinaryOperator.__str__\<close>, which brackets a child that is a binary operator
  unless one of the listed exemptions holds.
\<close>

fun is_BinaryOperator :: "'v symbol \<Rightarrow> bool" where
  "is_BinaryOperator (BinaryOperator k l r d a) = True"
| "is_BinaryOperator s = False"

text \<open>The attribute \<^verbatim>\<open>name\<close>, read only for a child that is a binary operator.\<close>

fun name :: "'v symbol \<Rightarrow> string" where
  "name (BinaryOperator k l r d a) = name_of k"
| "name (Leaf n c d a) = n"
| "name s = []"

fun str_of :: "('e, 'v, 'i) pybamm \<Rightarrow> 'v symbol \<Rightarrow> string" where
  "str_of P (BinaryOperator k l r d a) =
     (if k = EqualHeaviside then str_of P l @ '' <= '' @ str_of P r
      else if k = NotEqualHeaviside then str_of P l @ '' < '' @ str_of P r
      else if k = Modulo then str_of P l @ '' mod '' @ str_of P r
      else if k = Minimum then ''minimum('' @ str_of P l @ '', '' @ str_of P r @ '')''
      else if k = Maximum then ''maximum('' @ str_of P l @ '', '' @ str_of P r @ '')''
      else
        (let left_str =
               (if is_BinaryOperator l
                   \<and> \<not> (name l = name_of k
                        \<or> (name l = ''*'' \<and> name_of k = ''/'')
                        \<or> (name l = ''+'' \<and> name_of k = ''-'')
                        \<or> name_of k = ''+'')
                then ''('' @ str_of P l @ '')'' else str_of P l);
             right_str =
               (if is_BinaryOperator r
                   \<and> \<not> ((name_of k = ''*'' \<and> name r \<in> set [''*'', ''/''])
                        \<or> name_of k = ''+'')
                then ''('' @ str_of P r @ '')'' else str_of P r)
         in left_str @ '' '' @ name_of k @ '' '' @ right_str))"
| "str_of P s = symbol_str P s"

subsection \<open>The factories\<close>

text \<open>\<^verbatim>\<open>softminus\<close> and \<^verbatim>\<open>softplus\<close>, for a coefficient \<open>k\<close> that is a number.\<close>

definition softminus ::
  "('e, 'v) algebra \<Rightarrow> 'v operand \<Rightarrow> 'v operand \<Rightarrow> 'v \<Rightarrow> error + 'v operand" where
  "softminus A left right k =
     bind_res (py_neg A (PyNumber k)) (\<lambda>nk.
     bind_res (py_binop A OpMul nk left) (\<lambda>a.
     bind_res (pybamm_exp A a) (\<lambda>ea.
     bind_res (py_neg A (PyNumber k)) (\<lambda>nk'.
     bind_res (py_binop A OpMul nk' right) (\<lambda>b.
     bind_res (pybamm_exp A b) (\<lambda>eb.
     bind_res (py_binop A OpAdd ea eb) (\<lambda>s.
     bind_res (pybamm_log A s) (\<lambda>lg.
     bind_res (py_neg A (PyNumber k)) (\<lambda>nk''.
     py_binop A OpTrueDiv lg nk'')))))))))"

definition softplus ::
  "('e, 'v) algebra \<Rightarrow> 'v operand \<Rightarrow> 'v operand \<Rightarrow> 'v \<Rightarrow> error + 'v operand" where
  "softplus A left right k =
     bind_res (py_binop A OpMul (PyNumber k) left) (\<lambda>a.
     bind_res (pybamm_exp A a) (\<lambda>ea.
     bind_res (py_binop A OpMul (PyNumber k) right) (\<lambda>b.
     bind_res (pybamm_exp A b) (\<lambda>eb.
     bind_res (py_binop A OpAdd ea eb) (\<lambda>s.
     bind_res (pybamm_log A s) (\<lambda>lg.
     py_binop A OpTrueDiv lg (PyNumber k)))))))"

text \<open>
  \<^verbatim>\<open>minimum\<close> and \<^verbatim>\<open>maximum\<close>: the exact node when the setting is
  \<^verbatim>\<open>"exact"\<close> or both operands are constant, the smooth approximation otherwise;
  the result goes through \<^verbatim>\<open>simplify_if_constant\<close>.
\<close>

definition minimum ::
  "('e, 'v, 'i) pybamm \<Rightarrow> ('e, 'v) algebra \<Rightarrow> 'v operand \<Rightarrow> 'v operand \<Rightarrow> error + 'v operand" where
  "minimum P A left right =
     bind_res
       (case min_smoothing A of
          Exact \<Rightarrow> map_sum id PySymbol (init P Minimum left right)
        | Smoothing k \<Rightarrow>
            if pybamm_is_constant A left \<and> pybamm_is_constant A right
            then map_sum id PySymbol (init P Minimum left right)
            else softminus A left right k)
       (simplify_if_constant A)"

definition maximum ::
  "('e, 'v, 'i) pybamm \<Rightarrow> ('e, 'v) algebra \<Rightarrow> 'v operand \<Rightarrow> 'v operand \<Rightarrow> error + 'v operand" where
  "maximum P A left right =
     bind_res
       (case max_smoothing A of
          Exact \<Rightarrow> map_sum id PySymbol (init P Maximum left right)
        | Smoothing k \<Rightarrow>
            if pybamm_is_constant A left \<and> pybamm_is_constant A right
            then map_sum id PySymbol (init P Maximum left right)
            else softplus A left right k)
       (simplify_if_constant A)"

section \<open>An instance of the numeric library\<close>

text \<open>
  A small executable instance of the numeric library, on which the definitions above
  run on closed inputs.  A float is a real number or one of the special values of
  IEEE 754; rounding, overflow and the sign of zero are left out.  A value is
  \<^item> \<open>Number x\<close>: a numpy float, what a \<^verbatim>\<open>pybamm.Scalar\<close> evaluates to;
  \<^item> \<open>Bool b\<close>: a numpy boolean, the result of a comparison of two numbers;
  \<^item> \<open>NDArray rows\<close>: a dense array of two dimensions;
  \<^item> \<open>Sparse f rows\<close>: a scipy sparse matrix stored in the format \<open>f\<close>, shown by its
    rows; an entry that is zero is an entry the matrix does not store;
  \<^item> \<open>Untracked\<close>: the result of an operation this instance does not follow (the
    general broadcasting rules, arithmetic of sparse matrices other than
    \<^verbatim>\<open>multiply\<close>, powers with a fractional exponent, ...).  Nothing is proved
    about an untracked result.
\<close>

datatype npfloat = Finite real | PosInf | NegInf | NaN

datatype sparse_format = CSR | CSC | COO

datatype npvalue =
    Number npfloat
  | Bool bool
  | NDArray "npfloat list list"
  | Sparse sparse_format "npfloat list list"
  | Untracked

fun fl_neg :: "npfloat \<Rightarrow> npfloat" where
  "fl_neg (Finite a) = Finite (- a)"
| "fl_neg PosInf = NegInf"
| "fl_neg NegInf = PosInf"
| "fl_neg NaN = NaN"

fun fl_add :: "npfloat \<Rightarrow> npfloat \<Rightarrow> npfloat" where
  "fl_add NaN y = NaN"
| "fl_add x NaN = NaN"
| "fl_add (Finite a) (Finite b) = Finite (a + b)"
| "fl_add (Finite a) y = y"
| "fl_add x (Finite b) = x"
| "fl_add PosInf PosInf = PosInf"
| "fl_add NegInf NegInf = NegInf"
| "fl_add PosInf NegInf = NaN"
| "fl_add NegInf PosInf = NaN"

definition fl_sub :: "npfloat \<Rightarrow> npfloat \<Rightarrow> npfloat" where
  "fl_sub x y = fl_add x (fl_neg y)"

text \<open>The product of an infinity and a number that is not NaN: zero gives NaN.\<close>

definition inf_times :: "bool \<Rightarrow> real \<Rightarrow> npfloat" where
  "inf_times positive a =
     (if a = 0 then NaN else if (0 < a) = positive then PosInf else NegInf)"

fun fl_mul :: "npfloat \<Rightarrow> npfloat \<Rightarrow> npfloat" where
  "fl_mul NaN y = NaN"
| "fl_mul x NaN = NaN"
| "fl_mul (Finite a) (Finite b) = Finite (a * b)"
| "fl_mul (Finite a) PosInf = inf_times True a"
| "fl_mul (Finite a) NegInf = inf_times False a"
| "fl_mul PosInf (Finite b) = inf_times True b"
| "fl_mul NegInf (Finite b) = inf_times False b"
| "fl_mul PosInf PosInf = PosInf"
| "fl_mul NegInf NegInf = PosInf"
| "fl_mul PosInf NegInf = NegInf"
| "fl_mul NegInf PosInf = NegInf"

text \<open>
  The quotient of numpy floats: a division by zero gives an infinity or NaN and
  raises nothing.
\<close>

fun fl_div :: "npfloat \<Rightarrow> npfloat \<Rightarrow> npfloat" where
  "fl_div NaN y = NaN"
| "fl_div x NaN = NaN"
| "fl_div (Finite a) (Finite b) =
     (if b \<noteq> 0 then Finite (a / b)
      else if 0 < a then PosInf else if a < 0 then NegInf else NaN)"
| "fl_div (Finite a) y = Finite 0"
| "fl_div PosInf (Finite b) = (if 0 \<le> b then PosInf else NegInf)"
| "fl_div NegInf (Finite b) = (if 0 \<le> b then NegInf else PosInf)"
| "fl_div x y = NaN"

fun fl_le :: "npfloat \<Rightarrow> npfloat \<Rightarrow> bool" where
  "fl_le NaN y = False"
| "fl_le x NaN = False"
| "fl_le (Finite a) (Finite b) = (a \<le> b)"
| "fl_le NegInf y = True"
| "fl_le x PosInf = True"
| "fl_le x y = False"

definition fl_lt :: "npfloat \<Rightarrow> npfloat \<Rightarrow> bool" where
  "fl_lt x y = (fl_le x y \<and> x \<noteq> y)"

text \<open>\<^verbatim>\<open>np.minimum\<close> and \<^verbatim>\<open>np.maximum\<close> on two floats: NaN if one of them is.\<close>

definition fl_minimum :: "npfloat \<Rightarrow> npfloat \<Rightarrow> npfloat" where
  "fl_minimum x y = (if x = NaN \<or> y = NaN then NaN else if fl_le x y then x else y)"

definition fl_maximum :: "npfloat \<Rightarrow> npfloat \<Rightarrow> npfloat" where
  "fl_maximum x y = (if x = NaN \<or> y = NaN then NaN else if fl_le x y then y else x)"

text \<open>
  An arithmetic operation on numbers and dense arrays: entry by entry, a number
  against every entry of an array, two arrays of the same shape.
\<close>

fun np_arith :: "(npfloat \<Rightarrow> npfloat \<Rightarrow> npfloat) \<Rightarrow> npvalue \<Rightarrow> npvalue \<Rightarrow> npvalue" where
  "np_arith f (Number a) (Number b) = Number (f a b)"
| "np_arith f (Number a) (NDArray ys) = NDArray (map (map (f a)) ys)"
| "np_arith f (NDArray xs) (Number b) = NDArray (map (map (\<lambda>x. f x b)) xs)"
| "np_arith f (NDArray xs) (NDArray ys) =
     (if map length xs = map length ys then NDArray (map2 (map2 f) xs ys) else Untracked)"
| "np_arith f x y = Untracked"

fun np_compare :: "(npfloat \<Rightarrow> npfloat \<Rightarrow> bool) \<Rightarrow> npvalue \<Rightarrow> npvalue \<Rightarrow> npvalue" where
  "np_compare f (Number a) (Number b) = Bool (f a b)"
| "np_compare f x y = Untracked"

text \<open>
  A power with an exponent that is a natural number, a remainder with a divisor
  that is finite and not zero (the result has the sign of the divisor).
\<close>

fun np_power :: "npvalue \<Rightarrow> npvalue \<Rightarrow> npvalue" where
  "np_power (Number (Finite a)) (Number (Finite b)) =
     (if 0 \<le> b \<and> of_int \<lfloor>b\<rfloor> = b then Number (Finite (a ^ nat \<lfloor>b\<rfloor>)) else Untracked)"
| "np_power x y = Untracked"

fun np_mod :: "npvalue \<Rightarrow> npvalue \<Rightarrow> npvalue" where
  "np_mod (Number (Finite a)) (Number (Finite b)) =
     (if b \<noteq> 0 then Number (Finite (a - b * of_int \<lfloor>a / b\<rfloor>)) else Number NaN)"
| "np_mod x y = Untracked"

fun numpy_binary :: "errstate \<Rightarrow> np_op \<Rightarrow> npvalue \<Rightarrow> npvalue \<Rightarrow> error + npvalue" where
  "numpy_binary st NpPow x y = Inr (np_power x y)"
| "numpy_binary st NpAdd x y = Inr (np_arith fl_add x y)"
| "numpy_binary st NpSub x y = Inr (np_arith fl_sub x y)"
| "numpy_binary st NpMul x y = Inr (np_arith fl_mul x y)"
| "numpy_binary st NpMatMul x y = Inr Untracked"
| "numpy_binary st NpTrueDiv x y = Inr (np_arith fl_div x y)"
| "numpy_binary st NpMod x y = Inr (np_mod x y)"
| "numpy_binary st NpLe x y = Inr (np_compare fl_le x y)"
| "numpy_binary st NpLt x y = Inr (np_compare fl_lt x y)"
| "numpy_binary st NpMinimum x y = Inr (np_arith fl_minimum x y)"
| "numpy_binary st NpMaximum x y = Inr (np_arith fl_maximum x y)"

text \<open>
  \<^verbatim>\<open>x.multiply(y)\<close> of scipy for a sparse \<open>x\<close>: only the entries \<open>x\<close> stores are
  multiplied.  By a number the result keeps the format of \<open>x\<close> (a COO matrix is
  converted to CSR first); by a dense array of the same shape the result is a COO
  matrix; by a sparse matrix of the same shape it has the format of \<open>x\<close>.
\<close>

definition stored_times :: "npfloat \<Rightarrow> npfloat \<Rightarrow> npfloat" where
  "stored_times a b = (if a = Finite 0 then Finite 0 else fl_mul a b)"

definition both_stored_times :: "npfloat \<Rightarrow> npfloat \<Rightarrow> npfloat" where
  "both_stored_times a b = (if a = Finite 0 \<or> b = Finite 0 then Finite 0 else fl_mul a b)"

fun scipy_multiply :: "npvalue \<Rightarrow> npvalue \<Rightarrow> error + npvalue" where
  "scipy_multiply (Sparse f xs) (Number b) =
     Inr (Sparse (if f = COO then CSR else f) (map (map (\<lambda>x. stored_times x b)) xs))"
| "scipy_multiply (Sparse f xs) (NDArray ys) =
     (if map length xs = map length ys \<and> 1 < length (concat ys)
      then Inr (Sparse COO (map2 (map2 stored_times) xs ys)) else Inr Untracked)"
| "scipy_multiply (Sparse f xs) (Sparse g ys) =
     (if map length xs = map length ys
      then Inr (Sparse (if f = COO then CSR else f) (map2 (map2 both_stored_times) xs ys))
      else Inr Untracked)"
| "scipy_multiply (Sparse f xs) y = Inr Untracked"
| "scipy_multiply x y = Inl TypeError"

fun scipy_csr_matrix :: "npvalue \<Rightarrow> error + npvalue" where
  "scipy_csr_matrix (Sparse f xs) = Inr (Sparse CSR xs)"
| "scipy_csr_matrix (NDArray xs) = Inr (Sparse CSR xs)"
| "scipy_csr_matrix (Number a) = Inr (Sparse CSR [[a]])"
| "scipy_csr_matrix x = Inr Untracked"

fun scipy_issparse :: "npvalue \<Rightarrow> bool" where
  "scipy_issparse (Sparse f xs) = True"
| "scipy_issparse x = False"

fun isinstance_Number :: "npvalue \<Rightarrow> bool" where
  "isinstance_Number (Number a) = True"
| "isinstance_Number x = False"

definition numpy :: "npvalue numeric" where
  "numpy = \<lparr> np_binary = numpy_binary,
             sp_multiply = scipy_multiply,
             csr_matrix = scipy_csr_matrix,
             issparse = scipy_issparse,
             is_number = isinstance_Number,
             eq_zero = (\<lambda>x. x = Number (Finite 0)),
             np_inf = Number PosInf,
             py_int = (\<lambda>i. Number (Finite (of_int i))) \<rparr>"

section \<open>An instance of the collaborators\<close>

text \<open>
  Modelled from the spec: the base class of the nodes, the broadcast, the operators
  of Python on nodes and the constant folding are not in this module; this is an
  instance of them over the values above, on which the definitions run on closed
  inputs.  The inputs of an evaluation are a dictionary from the name of a node
  without children to its value; the id of a node is the node itself, a hash without
  collisions; the broadcast wraps its child in a node of the given domain; the
  operators build the node of their class and fold nothing.
\<close>

type_synonym np_symbol = "npvalue symbol"
type_synonym np_inputs = "(string \<times> npvalue) list"

definition broadcast_node :: "np_symbol \<Rightarrow> domains \<Rightarrow> error + np_symbol" where
  "broadcast_node child d =
     Inr (UnaryOperator PrimaryBroadcastC child d [(''secondary'', domain child)])"

text \<open>
  The auxiliary domains of the children, level by level: a level two children give
  different domains to, neither of them empty, is refused.
\<close>

fun merge_auxiliary_domains :: "aux_domains \<Rightarrow> aux_domains \<Rightarrow> error + aux_domains" where
  "merge_auxiliary_domains acc [] = Inr acc"
| "merge_auxiliary_domains acc ((level, d) # rest) =
     (case map_of acc level of
        None \<Rightarrow> merge_auxiliary_domains (acc @ [(level, d)]) rest
      | Some d' \<Rightarrow>
          if d' = [] \<or> d = d'
          then merge_auxiliary_domains (map (\<lambda>(l, x). if l = level then (l, d) else (l, x)) acc) rest
          else Inl DomainError)"

fun children_auxiliary_domains :: "aux_domains \<Rightarrow> np_symbol list \<Rightarrow> error + aux_domains" where
  "children_auxiliary_domains acc [] = Inr acc"
| "children_auxiliary_domains acc (child # children) =
     (case merge_auxiliary_domains acc (auxiliary_domains child) of
        Inl e \<Rightarrow> Inl e
      | Inr acc' \<Rightarrow> children_auxiliary_domains acc' children)"

fun lookup_input :: "np_inputs \<Rightarrow> np_symbol \<Rightarrow> error + npvalue" where
  "lookup_input env (Leaf n c d a) =
     (case map_of env n of None \<Rightarrow> Inl KeyError | Some v \<Rightarrow> Inr v)"
| "lookup_input env s = Inl TypeError"

fun np_negative :: "npvalue \<Rightarrow> npvalue" where
  "np_negative (Number a) = Number (fl_neg a)"
| "np_negative (NDArray xs) = NDArray (map (map fl_neg) xs)"
| "np_negative (Sparse f xs) = Sparse f (map (map fl_neg) xs)"
| "np_negative x = Untracked"

fun evaluate_unary :: "np_symbol \<Rightarrow> npvalue \<Rightarrow> error + npvalue" where
  "evaluate_unary (UnaryOperator NegateC child d a) v = Inr (np_negative v)"
| "evaluate_unary s v = Inr Untracked"

fun leaf_str :: "np_symbol \<Rightarrow> string" where
  "leaf_str (Leaf n c d a) = n"
| "leaf_str s = ''...''"

definition nodes :: "(np_inputs, npvalue, np_symbol) pybamm" where
  "nodes = \<lparr> PrimaryBroadcast = broadcast_node,
             get_children_auxiliary_domains = children_auxiliary_domains [],
             symbol_id = (\<lambda>s. s),
             base_evaluate = lookup_input,
             unary_evaluate = evaluate_unary,
             symbol_str = leaf_str \<rparr>"

text \<open>
  The operators of Python on numbers and nodes: on two numbers the arithmetic of the
  numeric library, otherwise the node of the class the base class builds for the
  operator (\<^verbatim>\<open>x >= y\<close> is \<^verbatim>\<open>y <= x\<close>).
\<close>

fun number_op :: "bin_op \<Rightarrow> npvalue \<Rightarrow> npvalue \<Rightarrow> error + npvalue" where
  "number_op OpAdd x y = numpy_binary ErrDefault NpAdd x y"
| "number_op OpSub x y = numpy_binary ErrDefault NpSub x y"
| "number_op OpMul x y = numpy_binary ErrDefault NpMul x y"
| "number_op OpMatMul x y = Inl TypeError"
| "number_op OpTrueDiv x y = numpy_binary ErrDefault NpTrueDiv x y"
| "number_op OpPow x y = numpy_binary ErrDefault NpPow x y"
| "number_op OpLe x y = numpy_binary ErrDefault NpLe x y"
| "number_op OpLt x y = numpy_binary ErrDefault NpLt x y"
| "number_op OpGe x y = numpy_binary ErrDefault NpLe y x"
| "number_op OpGt x y = numpy_binary ErrDefault NpLt y x"

fun node_op :: "bin_op \<Rightarrow> npvalue operand \<Rightarrow> npvalue operand \<Rightarrow> error + np_symbol" where
  "node_op OpAdd x y = init nodes Addition x y"
| "node_op OpSub x y = init nodes Subtraction x y"
| "node_op OpMul x y = init nodes Multiplication x y"
| "node_op OpMatMul x y = init nodes MatrixMultiplication x y"
| "node_op OpTrueDiv x y = init nodes Division x y"
| "node_op OpPow x y = init nodes Power x y"
| "node_op OpLe x y = init nodes EqualHeaviside x y"
| "node_op OpLt x y = init nodes NotEqualHeaviside x y"
| "node_op OpGe x y = init nodes EqualHeaviside y x"
| "node_op OpGt x y = init nodes NotEqualHeaviside y x"

fun python_binop :: "bin_op \<Rightarrow> npvalue operand \<Rightarrow> npvalue operand \<Rightarrow> error + npvalue operand" where
  "python_binop op (PyNumber a) (PyNumber b) = map_sum id PyNumber (number_op op a b)"
| "python_binop op x y = map_sum id PySymbol (node_op op x y)"

fun python_neg :: "npvalue operand \<Rightarrow> error + npvalue operand" where
  "python_neg (PyNumber a) = Inr (PyNumber (np_negative a))"
| "python_neg (PySymbol s) =
     Inr (PySymbol (UnaryOperator NegateC s (domain s) (auxiliary_domains s)))"
| "python_neg PyObject = Inl TypeError"

definition function_node :: "string \<Rightarrow> npvalue operand \<Rightarrow> error + npvalue operand" where
  "function_node f x =
     (case to_symbol x of
        PySymbol s \<Rightarrow>
          Inr (PySymbol (UnaryOperator (UnaryC f) s (domain s) (auxiliary_domains s)))
      | _ \<Rightarrow> Inl TypeError)"

fun operand_is_constant :: "npvalue operand \<Rightarrow> bool" where
  "operand_is_constant (PyNumber a) = True"
| "operand_is_constant (PySymbol s) = is_constant s"
| "operand_is_constant PyObject = False"

definition constant_number :: "np_symbol \<Rightarrow> bool" where
  "constant_number s =
     (is_constant s \<and>
      (case evaluate nodes numpy [] s of Inr (Number a) \<Rightarrow> True | _ \<Rightarrow> False))"

text \<open>
  Modelled from the spec: the constant folding returns the node it is given, or, for
  a node that is constant and evaluates, the scalar or the array of its value with
  the domains of the node.
\<close>

definition fold_constant :: "npvalue operand \<Rightarrow> error + npvalue operand" where
  "fold_constant x =
     (case x of
        PySymbol s \<Rightarrow>
          if is_constant s then
            (case evaluate nodes numpy [] s of
               Inr (Number a) \<Rightarrow> Inr (PySymbol (Scalar (Number a) []))
             | Inr (NDArray xs) \<Rightarrow>
                 Inr (PySymbol (Array (NDArray xs) (domain s) (auxiliary_domains s)))
             | Inr (Sparse f xs) \<Rightarrow>
                 Inr (PySymbol (Array (Sparse f xs) (domain s) (auxiliary_domains s)))
             | _ \<Rightarrow> Inr x)
          else Inr x
      | _ \<Rightarrow> Inl TypeError)"

text \<open>The operators under the smoothing setting \<open>k\<close>, for the minimum and the maximum.\<close>

definition operators :: "npvalue smoothing \<Rightarrow> (np_inputs, npvalue) algebra" where
  "operators k =
     \<lparr> py_binop = python_binop,
       py_neg = python_neg,
       pybamm_log = function_node ''log'',
       pybamm_exp = function_node ''exp'',
       pybamm_Floor = function_node ''floor'',
       pybamm_is_constant = operand_is_constant,
       evaluates_to_constant_number = constant_number,
       simplify_if_constant = fold_constant,
       min_smoothing = k,
       max_smoothing = k,
       no_inputs = [] \<rparr>"

section \<open>The reading of a printed expression\<close>

text \<open>
  Modelled from the spec: the standard precedence and associativity of the infix
  operators the nodes print, as Python reads them.  \<^verbatim>\<open>**\<close> binds tightest and
  groups to the right; \<^verbatim>\<open>*\<close>, \<^verbatim>\<open>@\<close>, \<^verbatim>\<open>/\<close> and \<^verbatim>\<open>%\<close> come next, then
  \<^verbatim>\<open>+\<close> and \<^verbatim>\<open>-\<close>, all grouping to the left; the comparisons bind loosest.  The
  inner product, the minimum and the maximum do not print as an operator of Python.
\<close>

fun precedence :: "kind \<Rightarrow> nat option" where
  "precedence Power = Some 4"
| "precedence Multiplication = Some 3"
| "precedence MatrixMultiplication = Some 3"
| "precedence Division = Some 3"
| "precedence Modulo = Some 3"
| "precedence Addition = Some 2"
| "precedence Subtraction = Some 2"
| "precedence EqualHeaviside = Some 1"
| "precedence NotEqualHeaviside = Some 1"
| "precedence k = None"

definition groups_to_the_right :: "kind \<Rightarrow> bool" where
  "groups_to_the_right k = (k = Power)"

text \<open>
  Whether the text \<^verbatim>\<open>x op y\<close> of a child of kind \<open>child\<close>, written without
  brackets as the left (the right) operand of a parent of kind \<open>parent\<close>, is read as
  another tree than the one printed.
\<close>

definition omitting_changes_parse_left :: "kind \<Rightarrow> kind \<Rightarrow> bool" where
  "omitting_changes_parse_left parent child =
     (case (precedence parent, precedence child) of
        (Some p, Some c) \<Rightarrow> c < p \<or> (c = p \<and> groups_to_the_right parent)
      | _ \<Rightarrow> True)"

definition omitting_changes_parse_right :: "kind \<Rightarrow> kind \<Rightarrow> bool" where
  "omitting_changes_parse_right parent child =
     (case (precedence parent, precedence child) of
        (Some p, Some c) \<Rightarrow> c < p \<or> (c = p \<and> \<not> groups_to_the_right parent)
      | _ \<Rightarrow> True)"

section \<open>Known evaluations\<close>

text \<open>
  Two conditions under which a dictionary of known evaluations can be used for the
  inputs \<open>env\<close>: nodes of the same id have the same value (the id is a hash, and two
  nodes whose hashes collide share one entry), and every value the dictionary holds
  is the value of the nodes of that id at these inputs.  The empty dictionary is
  valid for all inputs.
\<close>

definition hash_respects_evaluate :: "('e, 'v, 'i) pybamm \<Rightarrow> 'v numeric \<Rightarrow> 'e \<Rightarrow> bool" where
  "hash_respects_evaluate P N env =
     (\<forall>s s'. symbol_id P s = symbol_id P s' \<longrightarrow> evaluate P N env s = evaluate P N env s')"

definition known_evals_valid ::
  "('e, 'v, 'i) pybamm \<Rightarrow> 'v numeric \<Rightarrow> 'e \<Rightarrow> ('i \<rightharpoonup> 'v) \<Rightarrow> bool" where
  "known_evals_valid P N env known_evals =
     (\<forall>s v. known_evals (symbol_id P s) = Some v \<longrightarrow> evaluate P N env s = Inr v)"

text \<open>The class of a child that is a binary operator.\<close>

fun kind_of :: "'v symbol \<Rightarrow> kind option" where
  "kind_of (BinaryOperator k l r d a) = Some k"
| "kind_of s = None"

section \<open>Properties\<close>

subsection \<open>Auxiliary facts\<close>

lemma bind_res_simps:
  "bind_res (Inl e) f = Inl e"
  "bind_res (Inr x) f = f x"
  by (simp_all add: bind_res_def)

lemma get_children_domains_Inr:
  "get_children_domains l r = Inr d \<longleftrightarrow>
     (l = r \<or> l = [] \<or> r = []) \<and> d = (if l = r then l else if l = [] then r else l)"
  by (auto simp: get_children_domains_def)

lemma format_compatible:
  assumes "domain l = domain r \<or> domain l = [] \<or> domain r = []"
  shows "format P (PySymbol l) (PySymbol r) = Inr (l, r)"
  using assms by (auto simp: format_def to_symbol_def bind_res_simps)

subsection \<open>The domain of a new node\<close>

text \<open>
  C1.  Let \<open>l\<close> and \<open>r\<close> be the children after \<^verbatim>\<open>format\<close> (numbers turned into scalars,
  the automatic broadcast applied).  Equal domains combine to that domain; when
  exactly one of the two is empty they combine to the other one; two domains that
  are not empty and differ make the constructor raise \<^verbatim>\<open>DomainError\<close>, so that no
  node is built.  Every node the constructor returns has the children \<open>l\<close> and \<open>r\<close>
  and the domain so combined.
\<close>

theorem binary_operator_domain:
  assumes "format P left right = Inr (l, r)"
  shows "(domain l = domain r \<longrightarrow>
            get_children_domains (domain l) (domain r) = Inr (domain l))
       \<and> (domain l = [] \<and> domain r \<noteq> [] \<longrightarrow>
            get_children_domains (domain l) (domain r) = Inr (domain r))
       \<and> (domain l \<noteq> [] \<and> domain r = [] \<longrightarrow>
            get_children_domains (domain l) (domain r) = Inr (domain l))
       \<and> (domain l \<noteq> [] \<and> domain r \<noteq> [] \<and> domain l \<noteq> domain r \<longrightarrow>
            init P k left right = Inl DomainError)
       \<and> (\<forall>n. init P k left right = Inr n \<longrightarrow>
            (\<exists>a. n = BinaryOperator k l r (domain n) a)
            \<and> get_children_domains (domain l) (domain r) = Inr (domain n))"
proof -
  have combine: "domain l \<noteq> [] \<and> domain r \<noteq> [] \<and> domain l \<noteq> domain r \<longrightarrow>
      init P k left right = Inl DomainError"
    using assms by (simp add: init_def bind_res_simps get_children_domains_def)
  have built: "\<forall>n. init P k left right = Inr n \<longrightarrow>
      (\<exists>a. n = BinaryOperator k l r (domain n) a)
      \<and> get_children_domains (domain l) (domain r) = Inr (domain n)"
    using assms
    by (auto simp: init_def bind_res_def split: sum.splits)
  show ?thesis
    using combine built by (simp add: get_children_domains_def)
qed

theorem binary_operator_domain_witness:
  "init nodes Addition (PySymbol (Leaf ''u'' False [''a''] []))
       (PySymbol (Leaf ''w'' False [''b''] [])) = Inl DomainError
   \<and> init nodes Addition (PyNumber (Number (Finite 2)))
       (PySymbol (Leaf ''u'' False [''a''] []))
     = Inr (BinaryOperator Addition (Scalar (Number (Finite 2)) [])
         (Leaf ''u'' False [''a''] []) [''a''] [])
   \<and> get_children_domains [] [''a''] = Inr [''a'']
   \<and> get_children_domains [''a''] [''a''] = Inr [''a'']"
proof -
  have f1: "format nodes (PySymbol (Leaf ''u'' False [''a''] []))
      (PySymbol (Leaf ''w'' False [''b''] []))
     = Inr (Leaf ''u'' False [''a''] [], Leaf ''w'' False [''b''] [])"
    by (simp add: format_def to_symbol_def bind_res_simps)
  have f2: "format nodes (PyNumber (Number (Finite 2))) (PySymbol (Leaf ''u'' False [''a''] []))
     = Inr (Scalar (Number (Finite 2)) [], Leaf ''u'' False [''a''] [])"
    by (simp add: format_def to_symbol_def)
  have f3: "format nodes (PySymbol (Leaf ''u'' False [''a''] []))
      (PySymbol (Leaf ''u'' False [''a''] []))
     = Inr (Leaf ''u'' False [''a''] [], Leaf ''u'' False [''a''] [])"
    by (simp add: format_def to_symbol_def bind_res_simps)
  have built: "init nodes Addition (PyNumber (Number (Finite 2)))
       (PySymbol (Leaf ''u'' False [''a''] []))
     = Inr (BinaryOperator Addition (Scalar (Number (Finite 2)) [])
         (Leaf ''u'' False [''a''] []) [''a''] [])"
    unfolding init_def f2 by (simp add: bind_res_simps get_children_domains_def nodes_def)
  have raised: "init nodes Addition (PySymbol (Leaf ''u'' False [''a''] []))
       (PySymbol (Leaf ''w'' False [''b''] [])) = Inl DomainError"
    using binary_operator_domain [OF f1, of Addition] by simp
  have combined: "get_children_domains [] [''a''] = Inr [''a'']"
    "get_children_domains [''a''] [''a''] = Inr [''a'']"
    using binary_operator_domain [OF f2, of Addition]
      binary_operator_domain [OF f3, of Addition]
    by simp_all
  show ?thesis
    using built raised combined by simp
qed

subsection \<open>Evaluation with known evaluations\<close>

lemma known_evals_valid_update:
  assumes "hash_respects_evaluate P N env" "known_evals_valid P N env m"
    "evaluate P N env s = Inr v"
  shows "known_evals_valid P N env (m(symbol_id P s \<mapsto> v))"
  using assms unfolding hash_respects_evaluate_def known_evals_valid_def
  by (metis fun_upd_apply option.inject)

lemma known_evals_validD:
  "known_evals_valid P N env m \<Longrightarrow> m (symbol_id P s) = Some v \<Longrightarrow> evaluate P N env s = Inr v"
  by (simp add: known_evals_valid_def)

lemma evaluate_known_evals_sound:
  assumes ids: "hash_respects_evaluate P N env"
  shows "known_evals_valid P N env m \<Longrightarrow>
     (case evaluate_known_evals P N env s m of
        Inl e \<Rightarrow> evaluate P N env s = Inl e
      | Inr (v, m') \<Rightarrow> evaluate P N env s = Inr v \<and> known_evals_valid P N env m')"
proof (induction s arbitrary: m)
  case (Scalar v d)
  show ?case
  proof (cases "m (symbol_id P (Scalar v d))")
    case None
    then show ?thesis
      using known_evals_valid_update [OF ids Scalar, of "Scalar v d" v] by simp
  next
    case (Some w)
    then show ?thesis using known_evals_validD [OF Scalar Some] Scalar by simp
  qed
next
  case (Array v d a)
  show ?case
  proof (cases "m (symbol_id P (Array v d a))")
    case None
    then show ?thesis
      using known_evals_valid_update [OF ids Array, of "Array v d a" v] by simp
  next
    case (Some w)
    then show ?thesis using known_evals_validD [OF Array Some] Array by simp
  qed
next
  case (Leaf n c d a)
  show ?case
  proof (cases "m (symbol_id P (Leaf n c d a))")
    case None
    then show ?thesis
      using known_evals_valid_update [OF ids Leaf, of "Leaf n c d a"]
      by (auto split: sum.splits)
  next
    case (Some w)
    then show ?thesis using known_evals_validD [OF Leaf Some] Leaf by simp
  qed
next
  case (UnaryOperator c child d a)
  let ?s = "UnaryOperator c child d a"
  show ?case
  proof (cases "m (symbol_id P ?s)")
    case (Some w)
    then show ?thesis
      using known_evals_validD [OF UnaryOperator.prems Some] UnaryOperator.prems by simp
  next
    case None
    show ?thesis
    proof (cases "evaluate_known_evals P N env child m")
      case (Inl e)
      then show ?thesis using None UnaryOperator.IH [OF UnaryOperator.prems] by simp
    next
      case (Inr p)
      obtain v m1 where p: "p = (v, m1)" by (cases p)
      have c: "evaluate P N env child = Inr v" and m1: "known_evals_valid P N env m1"
        using UnaryOperator.IH [OF UnaryOperator.prems] Inr p by simp_all
      show ?thesis
      proof (cases "unary_evaluate P ?s v")
        case (Inl e)
        then show ?thesis using None Inr p c by simp
      next
        case (Inr w)
        have "evaluate P N env ?s = Inr w" using c Inr by simp
        then show ?thesis
          using None \<open>evaluate_known_evals P N env child m = Inr p\<close> p Inr
            known_evals_valid_update [OF ids m1, of ?s w] by simp
      qed
    qed
  qed
next
  case (BinaryOperator k l r d a)
  let ?s = "BinaryOperator k l r d a"
  show ?case
  proof (cases "m (symbol_id P ?s)")
    case (Some w)
    then show ?thesis
      using known_evals_validD [OF BinaryOperator.prems Some] BinaryOperator.prems by simp
  next
    case None
    show ?thesis
    proof (cases "evaluate_known_evals P N env l m")
      case (Inl e)
      then show ?thesis using None BinaryOperator.IH(1) [OF BinaryOperator.prems] by simp
    next
      case (Inr p)
      note el = Inr
      obtain left m1 where p: "p = (left, m1)" by (cases p)
      have cl: "evaluate P N env l = Inr left" and m1: "known_evals_valid P N env m1"
        using BinaryOperator.IH(1) [OF BinaryOperator.prems] el p by simp_all
      show ?thesis
      proof (cases "evaluate_known_evals P N env r m1")
        case (Inl e)
        then show ?thesis using None el p cl BinaryOperator.IH(2) [OF m1] by simp
      next
        case (Inr q)
        note er = Inr
        obtain right m2 where q: "q = (right, m2)" by (cases q)
        have cr: "evaluate P N env r = Inr right" and m2: "known_evals_valid P N env m2"
          using BinaryOperator.IH(2) [OF m1] er q by simp_all
        show ?thesis
        proof (cases "binary_evaluate N k left right")
          case (Inl e)
          then show ?thesis using None el p er q cl cr by simp
        next
          case (Inr v)
          have "evaluate P N env ?s = Inr v" using cl cr Inr by simp
          then show ?thesis
            using None el p er q Inr known_evals_valid_update [OF ids m2, of ?s v] by simp
        qed
      qed
    qed
  qed
qed

text \<open>
  C2.  For a binary operator node and fixed inputs, \<^verbatim>\<open>evaluate\<close> with a dictionary of
  known evaluations returns the value, or raises the exception, that \<^verbatim>\<open>evaluate\<close>
  without a dictionary returns or raises.  The dictionary supplied is one that is
  valid for these inputs (the empty one that a caller starts with is), and nodes of
  the same id have the same value.  A value stored for other inputs would be
  returned as it is: the dictionary belongs to one evaluation.
\<close>

theorem memoized_evaluate_agrees:
  assumes "hash_respects_evaluate P N env" and "known_evals_valid P N env known_evals"
  shows "map_sum id fst (evaluate_known_evals P N env (BinaryOperator k l r d a) known_evals)
       = evaluate P N env (BinaryOperator k l r d a)"
  using evaluate_known_evals_sound [OF assms, of "BinaryOperator k l r d a"]
  by (auto split: sum.splits)

theorem memoized_evaluate_agrees_witness:
  "map_sum id fst
     (evaluate_known_evals nodes numpy [(''x'', Number (Finite 2))]
        (BinaryOperator Addition (Leaf ''x'' False [] [])
           (BinaryOperator Multiplication (Leaf ''x'' False [] [])
              (Scalar (Number (Finite 3)) []) [] []) [] [])
        Map.empty)
   = Inr (Number (Finite 8))"
proof -
  let ?env = "[(''x'', Number (Finite 2))]"
  have ids: "hash_respects_evaluate nodes numpy ?env"
    by (simp add: hash_respects_evaluate_def nodes_def)
  have valid: "known_evals_valid nodes numpy ?env Map.empty"
    by (simp add: known_evals_valid_def)
  have "evaluate nodes numpy ?env
      (BinaryOperator Addition (Leaf ''x'' False [] [])
         (BinaryOperator Multiplication (Leaf ''x'' False [] [])
            (Scalar (Number (Finite 3)) []) [] []) [] [])
    = Inr (Number (Finite 8))"
    by (simp add: nodes_def numpy_def)
  then show ?thesis
    using memoized_evaluate_agrees [OF ids valid, of Addition "Leaf ''x'' False [] []"
        "BinaryOperator Multiplication (Leaf ''x'' False [] []) (Scalar (Number (Finite 3)) []) [] []"
        "[]" "[]"]
    by simp
qed

subsection \<open>Numeric evaluation of a division\<close>

text \<open>
  The claim C3 as stated fails: the quotient of the number zero by the exact scalar
  zero is \<open>0 * inf\<close>, which is NaN and no infinity.
\<close>

theorem division_by_zero_counterexample:
  "binary_evaluate numpy Division (Number (Finite 0)) (Number (Finite 0)) = Inr (Number NaN)
   \<and> Number NaN \<noteq> Number PosInf \<and> Number NaN \<noteq> Number NegInf"
  by (simp add: numpy_def inf_times_def)

text \<open>
  C3, amended.  For a left value that is not sparse: when the right value is the
  exact scalar zero, a \<^verbatim>\<open>Division\<close> node evaluates to the left value times infinity,
  computed with the invalid-value warnings ignored, and raises nothing of its own;
  for a left value that is a finite number \<open>x\<close> this is the infinity of the sign of
  \<open>x\<close> when \<open>x\<close> is not zero and NaN when \<open>x\<close> is zero.  When the right value is not
  the scalar zero the node evaluates to the quotient of left by right, and for a
  sparse left value to the sparse matrix \<^verbatim>\<open>csr_matrix(left.multiply(1 / right))\<close>.
\<close>

theorem division_evaluate:
  "(\<not> issparse N left \<and> is_number N right \<and> eq_zero N right \<longrightarrow>
      binary_evaluate N Division left right = np_binary N InvalidIgnore NpMul left (np_inf N))
   \<and> (\<not> issparse N left \<and> \<not> (is_number N right \<and> eq_zero N right) \<longrightarrow>
      binary_evaluate N Division left right = np_binary N ErrDefault NpTrueDiv left right)
   \<and> (issparse N left \<and> \<not> (is_number N right \<and> eq_zero N right) \<longrightarrow>
      binary_evaluate N Division left right =
        bind_res (np_binary N ErrDefault NpTrueDiv (py_int N 1) right) (\<lambda>reciprocal.
        bind_res (sp_multiply N left reciprocal) (csr_matrix N)))
   \<and> binary_evaluate numpy Division (Number (Finite x)) (Number (Finite 0)) =
       Inr (Number (if x = 0 then NaN else if 0 < x then PosInf else NegInf))"
  by (simp add: numpy_def inf_times_def)

theorem division_evaluate_witness:
  "binary_evaluate numpy Division (Number (Finite 3)) (Number (Finite 0)) = Inr (Number PosInf)
   \<and> binary_evaluate numpy Division (Number (Finite 3)) (Number (Finite 2))
       = Inr (Number (Finite (3 / 2)))
   \<and> binary_evaluate numpy Division (Sparse CSR [[Finite 1, Finite 0]]) (Number (Finite 2))
       = Inr (Sparse CSR [[Finite (1 / 2), Finite 0]])"
  using division_evaluate [of numpy "Number (Finite 3)" "Number (Finite 0)" 3]
    division_evaluate [of numpy "Number (Finite 3)" "Number (Finite 2)" 3]
    division_evaluate [of numpy "Sparse CSR [[Finite 1, Finite 0]]" "Number (Finite 2)" 3]
  by (simp add: numpy_def bind_res_simps stored_times_def)

subsection \<open>Numeric evaluation of an inner product\<close>

text \<open>
  C8.  On values that are not sparse, \<^verbatim>\<open>Inner\<close> and \<^verbatim>\<open>Multiplication\<close> evaluate to
  the same product.  When one of the two values is sparse, \<^verbatim>\<open>Multiplication\<close>
  converts the product to the CSR format and \<^verbatim>\<open>Inner\<close> returns it as
  \<^verbatim>\<open>multiply\<close> built it: for a CSR matrix and a dense array of the same shape that
  is a COO matrix, so the two results differ in their storage format.
\<close>

theorem inner_leaves_storage_format:
  "binary_evaluate N Multiplication left right =
     (if issparse N left \<or> issparse N right
      then bind_res (binary_evaluate N Inner left right) (csr_matrix N)
      else binary_evaluate N Inner left right)
   \<and> binary_evaluate numpy Inner
        (Sparse CSR [[Finite 1, Finite 0], [Finite 0, Finite 2]])
        (NDArray [[Finite 1, Finite 2], [Finite 3, Finite 4]])
      = Inr (Sparse COO [[Finite 1, Finite 0], [Finite 0, Finite 8]])
   \<and> binary_evaluate numpy Multiplication
        (Sparse CSR [[Finite 1, Finite 0], [Finite 0, Finite 2]])
        (NDArray [[Finite 1, Finite 2], [Finite 3, Finite 4]])
      = Inr (Sparse CSR [[Finite 1, Finite 0], [Finite 0, Finite 8]])"
  by (simp add: numpy_def bind_res_simps stored_times_def)

subsection \<open>Constancy\<close>

text \<open>
  C10.  A binary operator node of any of the classes is constant exactly when both
  of its children are.
\<close>

theorem binary_operator_is_constant:
  "is_constant (BinaryOperator k l r d a) \<longleftrightarrow> is_constant l \<and> is_constant r"
  by simp

theorem binary_operator_is_constant_witness:
  "is_constant (BinaryOperator Division (Scalar (Number (Finite 1)) [])
       (Array (NDArray [[Finite 2]]) [] []) [] [])
   \<and> \<not> is_constant (BinaryOperator Minimum (Scalar (Number (Finite 1)) [])
         (Leaf ''x'' False [] []) [] [])"
  using binary_operator_is_constant [of Division "Scalar (Number (Finite 1)) []"
      "Array (NDArray [[Finite 2]]) [] []" "[]" "[]"]
    binary_operator_is_constant [of Minimum "Scalar (Number (Finite 1)) []"
      "Leaf ''x'' False [] []" "[]" "[]"]
  by simp

subsection \<open>Copies\<close>

lemma init_compatible:
  assumes "get_children_domains (domain l) (domain r) = Inr d'"
    and "get_children_auxiliary_domains P [l, r] = Inr a'"
  shows "init P k (PySymbol l) (PySymbol r) = Inr (BinaryOperator k l r d' a')"
proof -
  have "domain l = domain r \<or> domain l = [] \<or> domain r = []"
    using assms(1) by (simp add: get_children_domains_Inr)
  then have "format P (PySymbol l) (PySymbol r) = Inr (l, r)"
    by (rule format_compatible)
  then show ?thesis
    using assms by (simp add: init_def bind_res_simps)
qed

lemma new_copy_well_formed: "well_formed P s \<Longrightarrow> new_copy P s = Inr s"
proof (induction s)
  case (BinaryOperator k l r d a)
  then have l: "new_copy P l = Inr l" and r: "new_copy P r = Inr r" by simp_all
  obtain d' where d': "get_children_domains (domain l) (domain r) = Inr d'"
    using BinaryOperator.prems by (cases "get_children_domains (domain l) (domain r)") simp_all
  obtain a' where a': "get_children_auxiliary_domains P [l, r] = Inr a'"
    using BinaryOperator.prems by (cases "get_children_auxiliary_domains P [l, r]") simp_all
  show ?case
    using l r init_compatible [OF d' a', of k] by simp
qed simp_all

lemma orphans_well_formed:
  "well_formed P l \<Longrightarrow> well_formed P r \<Longrightarrow> orphans P l r = Inr (l, r)"
  by (simp add: orphans_def new_copy_well_formed bind_res_simps)

lemma init_well_formed:
  assumes "format P left right = Inr (l, r)" and "well_formed P l" and "well_formed P r"
    and "init P k left right = Inr n"
  shows "well_formed P n"
  using assms by (auto simp: init_def bind_res_def split: sum.splits)

text \<open>
  C6.  The copy of a binary operator node is built from the copies of the two
  children by the constructor of the node's own class, and its domain and auxiliary
  domains are then set to those of the original, whatever the constructor combined
  from the copied children; the copy evaluates as the original does on all inputs.
  The node is one the constructors can have built: at every binary operator in it
  the domains of the children combine.
\<close>

theorem new_copy_keeps_domains_and_value:
  assumes "well_formed P (BinaryOperator k l r d a)"
  shows "\<exists>new_left new_right out.
           new_copy P l = Inr new_left \<and> new_copy P r = Inr new_right
         \<and> init P k (PySymbol new_left) (PySymbol new_right) = Inr out
         \<and> new_copy P (BinaryOperator k l r d a)
             = Inr (copy_domains out (BinaryOperator k l r d a))
         \<and> copy_domains out (BinaryOperator k l r d a) = BinaryOperator k new_left new_right d a
         \<and> evaluate P N env (BinaryOperator k new_left new_right d a)
             = evaluate P N env (BinaryOperator k l r d a)"
proof -
  have l: "new_copy P l = Inr l" and r: "new_copy P r = Inr r"
    using assms by (simp_all add: new_copy_well_formed)
  obtain d' where d': "get_children_domains (domain l) (domain r) = Inr d'"
    using assms by (cases "get_children_domains (domain l) (domain r)") simp_all
  obtain a' where a': "get_children_auxiliary_domains P [l, r] = Inr a'"
    using assms by (cases "get_children_auxiliary_domains P [l, r]") simp_all
  have out: "init P k (PySymbol l) (PySymbol r) = Inr (BinaryOperator k l r d' a')"
    by (rule init_compatible [OF d' a'])
  show ?thesis
    using l r out by simp
qed

theorem new_copy_keeps_domains_and_value_witness:
  "new_copy nodes
     (BinaryOperator Addition (Scalar (Number (Finite 2)) []) (Leaf ''x'' False [] [])
        [''forced''] [(''secondary'', [''s''])])
   = Inr (BinaryOperator Addition (Scalar (Number (Finite 2)) []) (Leaf ''x'' False [] [])
        [''forced''] [(''secondary'', [''s''])])
   \<and> init nodes Addition (PySymbol (Scalar (Number (Finite 2)) []))
        (PySymbol (Leaf ''x'' False [] []))
     = Inr (BinaryOperator Addition (Scalar (Number (Finite 2)) []) (Leaf ''x'' False [] [])
        [] [])"
proof -
  have wf: "well_formed nodes
     (BinaryOperator Addition (Scalar (Number (Finite 2)) []) (Leaf ''x'' False [] [])
        [''forced''] [(''secondary'', [''s''])])"
    by (simp add: get_children_domains_def nodes_def)
  show ?thesis
    using new_copy_keeps_domains_and_value [OF wf, of numpy "[]"]
    by (auto simp: init_def format_def to_symbol_def bind_res_simps
        get_children_domains_def nodes_def)
qed

subsection \<open>Derivatives of a matrix multiplication\<close>

text \<open>
  C4.  \<^verbatim>\<open>diff\<close> of a \<^verbatim>\<open>MatrixMultiplication\<close> node raises \<^verbatim>\<open>NotImplementedError\<close>
  for every variable.  Its \<^verbatim>\<open>_binary_jac\<close> raises \<^verbatim>\<open>NotImplementedError\<close> when the
  left child is neither an array nor the negation of an array; when it is one of
  the two, the result is the product \<^verbatim>\<open>@\<close> of the matrix node that holds the value
  of the left child as a CSR matrix with the Jacobian of the right child.
\<close>

theorem matrix_multiplication_derivatives:
  assumes "well_formed P l" and "well_formed P r"
  shows "diff symbol_diff N (BinaryOperator MatrixMultiplication l r d a) variable
           = Inl NotImplementedError
       \<and> (is_Array l \<or> is_Negate_of_Array l \<longrightarrow>
            binary_jac P A N MatrixMultiplication l r left_jac right_jac =
              bind_res (evaluate P N (no_inputs A) l) (\<lambda>v.
              bind_res (csr_matrix N v) (\<lambda>m.
              py_binop A OpMatMul (PySymbol (Array m [] [])) right_jac)))
       \<and> (\<not> (is_Array l \<or> is_Negate_of_Array l) \<longrightarrow>
            binary_jac P A N MatrixMultiplication l r left_jac right_jac
              = Inl NotImplementedError)"
  using assms by (simp add: orphans_well_formed bind_res_simps)

theorem matrix_multiplication_derivatives_witness:
  "binary_jac nodes (operators Exact) numpy MatrixMultiplication
     (Array (NDArray [[Finite 1, Finite 2]]) [] []) (Leaf ''y'' False [] [])
     (PySymbol (Leaf ''Jl'' False [] [])) (PySymbol (Leaf ''Jr'' False [] []))
   = Inr (PySymbol (BinaryOperator MatrixMultiplication
        (Array (Sparse CSR [[Finite 1, Finite 2]]) [] []) (Leaf ''Jr'' False [] []) [] []))
   \<and> binary_jac nodes (operators Exact) numpy MatrixMultiplication
     (UnaryOperator NegateC (Array (NDArray [[Finite 1, Finite 2]]) [] []) [] [])
     (Leaf ''y'' False [] [])
     (PySymbol (Leaf ''Jl'' False [] [])) (PySymbol (Leaf ''Jr'' False [] []))
   = Inr (PySymbol (BinaryOperator MatrixMultiplication
        (Array (Sparse CSR [[Finite (- 1), Finite (- 2)]]) [] [])
        (Leaf ''Jr'' False [] []) [] []))
   \<and> binary_jac nodes (operators Exact) numpy MatrixMultiplication
     (Leaf ''M'' True [] []) (Leaf ''y'' False [] [])
     (PySymbol (Leaf ''Jl'' False [] [])) (PySymbol (Leaf ''Jr'' False [] []))
   = Inl NotImplementedError"
proof -
  have wf: "well_formed nodes (Array (NDArray [[Finite 1, Finite 2]]) [] [])"
    "well_formed nodes (UnaryOperator NegateC (Array (NDArray [[Finite 1, Finite 2]]) [] []) [] [])"
    "well_formed nodes (Leaf ''M'' True [] [])"
    "well_formed nodes (Leaf ''y'' False [] [])"
    by simp_all
  show ?thesis
    using matrix_multiplication_derivatives [OF wf(1) wf(4), of _ numpy _ _ _
        "operators Exact" "PySymbol (Leaf ''Jl'' False [] [])" "PySymbol (Leaf ''Jr'' False [] [])"]
      matrix_multiplication_derivatives [OF wf(2) wf(4), of _ numpy _ _ _
        "operators Exact" "PySymbol (Leaf ''Jl'' False [] [])" "PySymbol (Leaf ''Jr'' False [] [])"]
      matrix_multiplication_derivatives [OF wf(3) wf(4), of _ numpy _ _ _
        "operators Exact" "PySymbol (Leaf ''Jl'' False [] [])" "PySymbol (Leaf ''Jr'' False [] [])"]
    by (simp add: bind_res_simps nodes_def numpy_def operators_def init_def format_def
        to_symbol_def get_children_domains_def)
qed

subsection \<open>Jacobians of constant operands\<close>

text \<open>
  C5.  The Jacobian of a \<^verbatim>\<open>Multiplication\<close> node whose two children evaluate to
  constant numbers is the scalar zero.  The Jacobian of a \<^verbatim>\<open>Division\<close> node whose
  right child evaluates to a constant number, and whose left child does not, is the
  Jacobian of the left child divided by the right child: no term is built for the
  right child.
\<close>

theorem jacobian_constant_short_circuit:
  assumes "well_formed P l" and "well_formed P r"
  shows "(evaluates_to_constant_number A l \<and> evaluates_to_constant_number A r \<longrightarrow>
            binary_jac P A N Multiplication l r left_jac right_jac
              = Inr (PySymbol (Scalar (py_int N 0) [])))
       \<and> (\<not> evaluates_to_constant_number A l \<and> evaluates_to_constant_number A r \<longrightarrow>
            binary_jac P A N Division l r left_jac right_jac
              = py_binop A OpTrueDiv left_jac (PySymbol r))"
  using assms by (simp add: jac_product_def orphans_well_formed bind_res_simps)

theorem jacobian_constant_short_circuit_witness:
  "binary_jac nodes (operators Exact) numpy Multiplication
     (Scalar (Number (Finite 2)) []) (Scalar (Number (Finite 3)) [])
     (PySymbol (Leaf ''Jl'' False [] [])) (PySymbol (Leaf ''Jr'' False [] []))
   = Inr (PySymbol (Scalar (Number (Finite 0)) []))
   \<and> binary_jac nodes (operators Exact) numpy Division
     (Leaf ''x'' False [] []) (Scalar (Number (Finite 3)) [])
     (PySymbol (Leaf ''Jl'' False [] [])) (PySymbol (Leaf ''Jr'' False [] []))
   = Inr (PySymbol (BinaryOperator Division (Leaf ''Jl'' False [] [])
        (Scalar (Number (Finite 3)) []) [] []))"
proof -
  have wf: "well_formed nodes (Scalar (Number (Finite 2)) [])"
    "well_formed nodes (Scalar (Number (Finite 3)) [])"
    "well_formed nodes (Leaf ''x'' False [] [])"
    by simp_all
  show ?thesis
    using jacobian_constant_short_circuit [OF wf(1) wf(2), of "operators Exact" numpy
        "PySymbol (Leaf ''Jl'' False [] [])" "PySymbol (Leaf ''Jr'' False [] [])"]
      jacobian_constant_short_circuit [OF wf(3) wf(2), of "operators Exact" numpy
        "PySymbol (Leaf ''Jl'' False [] [])" "PySymbol (Leaf ''Jr'' False [] [])"]
    by (simp add: bind_res_simps nodes_def numpy_def operators_def constant_number_def
        init_def format_def to_symbol_def get_children_domains_def)
qed

subsection \<open>The minimum and the maximum of two operands\<close>

text \<open>
  C7.  \<^verbatim>\<open>minimum(left, right)\<close> builds the exact \<^verbatim>\<open>Minimum\<close> node when the smoothing
  setting is \<^verbatim>\<open>"exact"\<close> or both operands are constant, and the \<^verbatim>\<open>softminus\<close>
  approximation with the coefficient of the setting otherwise; in both cases the
  result goes through the constant folding.  \<^verbatim>\<open>maximum\<close> does the same with
  \<^verbatim>\<open>Maximum\<close> and \<^verbatim>\<open>softplus\<close>.  Under the exact setting \<^verbatim>\<open>minimum(3, 5)\<close> is the
  constant 3 and \<^verbatim>\<open>maximum(3, 5)\<close> the constant 5.
\<close>

theorem minimum_maximum_selection:
  "(min_smoothing A = Exact \<or> (pybamm_is_constant A left \<and> pybamm_is_constant A right) \<longrightarrow>
      minimum P A left right =
        bind_res (map_sum id PySymbol (init P Minimum left right)) (simplify_if_constant A))
   \<and> (\<forall>c. min_smoothing A = Smoothing c
          \<and> \<not> (pybamm_is_constant A left \<and> pybamm_is_constant A right) \<longrightarrow>
      minimum P A left right =
        bind_res (softminus A left right c) (simplify_if_constant A))
   \<and> (max_smoothing A = Exact \<or> (pybamm_is_constant A left \<and> pybamm_is_constant A right) \<longrightarrow>
      maximum P A left right =
        bind_res (map_sum id PySymbol (init P Maximum left right)) (simplify_if_constant A))
   \<and> (\<forall>c. max_smoothing A = Smoothing c
          \<and> \<not> (pybamm_is_constant A left \<and> pybamm_is_constant A right) \<longrightarrow>
      maximum P A left right =
        bind_res (softplus A left right c) (simplify_if_constant A))
   \<and> minimum nodes (operators Exact) (PyNumber (Number (Finite 3))) (PyNumber (Number (Finite 5)))
       = Inr (PySymbol (Scalar (Number (Finite 3)) []))
   \<and> maximum nodes (operators Exact) (PyNumber (Number (Finite 3))) (PyNumber (Number (Finite 5)))
       = Inr (PySymbol (Scalar (Number (Finite 5)) []))"
proof -
  have general_min:
    "min_smoothing A = Exact \<or> (pybamm_is_constant A left \<and> pybamm_is_constant A right) \<longrightarrow>
      minimum P A left right =
        bind_res (map_sum id PySymbol (init P Minimum left right)) (simplify_if_constant A)"
    by (auto simp: minimum_def split: smoothing.splits)
  have smooth_min:
    "\<forall>c. min_smoothing A = Smoothing c
          \<and> \<not> (pybamm_is_constant A left \<and> pybamm_is_constant A right) \<longrightarrow>
      minimum P A left right = bind_res (softminus A left right c) (simplify_if_constant A)"
    by (auto simp: minimum_def)
  have general_max:
    "max_smoothing A = Exact \<or> (pybamm_is_constant A left \<and> pybamm_is_constant A right) \<longrightarrow>
      maximum P A left right =
        bind_res (map_sum id PySymbol (init P Maximum left right)) (simplify_if_constant A)"
    by (auto simp: maximum_def split: smoothing.splits)
  have smooth_max:
    "\<forall>c. max_smoothing A = Smoothing c
          \<and> \<not> (pybamm_is_constant A left \<and> pybamm_is_constant A right) \<longrightarrow>
      maximum P A left right = bind_res (softplus A left right c) (simplify_if_constant A)"
    by (auto simp: maximum_def)
  have three: "minimum nodes (operators Exact)
      (PyNumber (Number (Finite 3))) (PyNumber (Number (Finite 5)))
       = Inr (PySymbol (Scalar (Number (Finite 3)) []))"
    by (simp add: minimum_def operators_def init_def format_def to_symbol_def bind_res_simps
        get_children_domains_def nodes_def fold_constant_def numpy_def fl_minimum_def)
  have five: "maximum nodes (operators Exact)
      (PyNumber (Number (Finite 3))) (PyNumber (Number (Finite 5)))
       = Inr (PySymbol (Scalar (Number (Finite 5)) []))"
    by (simp add: maximum_def operators_def init_def format_def to_symbol_def bind_res_simps
        get_children_domains_def nodes_def fold_constant_def numpy_def fl_maximum_def)
  show ?thesis
    using general_min smooth_min general_max smooth_max three five by blast
qed

theorem minimum_maximum_selection_witness:
  "minimum nodes (operators (Smoothing (Number (Finite 10))))
     (PySymbol (Leaf ''x'' False [] [])) (PyNumber (Number (Finite 5)))
   = Inr (PySymbol
       (BinaryOperator Division
         (UnaryOperator (UnaryC ''log'')
           (BinaryOperator Addition
             (UnaryOperator (UnaryC ''exp'')
               (BinaryOperator Multiplication
                 (Scalar (Number (Finite (- 10))) [])
                 (Leaf ''x'' False [] []) [] [])
               [] [])
             (UnaryOperator (UnaryC ''exp'')
               (Scalar (Number (Finite (- 50))) []) [] [])
             [] [])
           [] [])
         (Scalar (Number (Finite (- 10))) []) [] []))
   \<and> minimum nodes (operators (Smoothing (Number (Finite 10))))
       (PyNumber (Number (Finite 3))) (PyNumber (Number (Finite 5)))
     = Inr (PySymbol (Scalar (Number (Finite 3)) []))
   \<and> maximum nodes (operators Exact)
       (PySymbol (Leaf ''x'' False [] [])) (PyNumber (Number (Finite 5)))
     = Inr (PySymbol (BinaryOperator Maximum (Leaf ''x'' False [] [])
         (Scalar (Number (Finite 5)) []) [] []))"
proof -
  let ?A = "operators (Smoothing (Number (Finite 10)))"
  have k: "min_smoothing ?A = Smoothing (Number (Finite 10))"
    by (simp add: operators_def)
  have x: "\<not> (pybamm_is_constant ?A (PySymbol (Leaf ''x'' False [] []))
      \<and> pybamm_is_constant ?A (PyNumber (Number (Finite 5))))"
    by (simp add: operators_def)
  have c: "pybamm_is_constant ?A (PyNumber (Number (Finite 3)))
      \<and> pybamm_is_constant ?A (PyNumber (Number (Finite 5)))"
    by (simp add: operators_def)
  have e: "max_smoothing (operators Exact) = Exact"
    by (simp add: operators_def)
  have soft: "softminus ?A (PySymbol (Leaf ''x'' False [] [])) (PyNumber (Number (Finite 5)))
      (Number (Finite 10))
    = Inr (PySymbol
       (BinaryOperator Division
         (UnaryOperator (UnaryC ''log'')
           (BinaryOperator Addition
             (UnaryOperator (UnaryC ''exp'')
               (BinaryOperator Multiplication
                 (Scalar (Number (Finite (- 10))) [])
                 (Leaf ''x'' False [] []) [] [])
               [] [])
             (UnaryOperator (UnaryC ''exp'')
               (Scalar (Number (Finite (- 50))) []) [] [])
             [] [])
           [] [])
         (Scalar (Number (Finite (- 10))) []) [] []))"
    by (simp add: softminus_def operators_def bind_res_simps function_node_def to_symbol_def
        init_def format_def get_children_domains_def nodes_def)
  have one: "minimum nodes ?A (PySymbol (Leaf ''x'' False [] [])) (PyNumber (Number (Finite 5)))
      = bind_res (softminus ?A (PySymbol (Leaf ''x'' False [] [])) (PyNumber (Number (Finite 5)))
          (Number (Finite 10))) (simplify_if_constant ?A)"
    using minimum_maximum_selection [of ?A "PySymbol (Leaf ''x'' False [] [])"
        "PyNumber (Number (Finite 5))" nodes] k x by blast
  have two: "minimum nodes ?A (PyNumber (Number (Finite 3))) (PyNumber (Number (Finite 5)))
      = bind_res (map_sum id PySymbol (init nodes Minimum (PyNumber (Number (Finite 3)))
          (PyNumber (Number (Finite 5))))) (simplify_if_constant ?A)"
    using minimum_maximum_selection [of ?A "PyNumber (Number (Finite 3))"
        "PyNumber (Number (Finite 5))" nodes] c by blast
  have three: "maximum nodes (operators Exact) (PySymbol (Leaf ''x'' False [] []))
        (PyNumber (Number (Finite 5)))
      = bind_res (map_sum id PySymbol (init nodes Maximum (PySymbol (Leaf ''x'' False [] []))
          (PyNumber (Number (Finite 5))))) (simplify_if_constant (operators Exact))"
    using minimum_maximum_selection [of "operators Exact" "PySymbol (Leaf ''x'' False [] [])"
        "PyNumber (Number (Finite 5))" nodes] e by blast
  show ?thesis
    unfolding one two three soft
    by (simp add: operators_def init_def format_def to_symbol_def bind_res_simps
        get_children_domains_def nodes_def fold_constant_def numpy_def fl_minimum_def)
qed

subsection \<open>Printing\<close>

lemma name_of_eq: "name_of k = name_of k' \<longleftrightarrow> k = k'"
  by (cases k; cases k'; simp)

lemma name_kind_of:
  "is_BinaryOperator s \<Longrightarrow> name s = name_of k \<longleftrightarrow> kind_of s = Some k"
  by (cases s) (simp_all add: name_of_eq)

text \<open>
  The claim C9 as stated fails: the product \<open>a * b\<close> printed as the left operand of
  a subtraction gets brackets, although \<^verbatim>\<open>a * b - c\<close> is read as the same tree.
\<close>

theorem str_brackets_counterexample:
  "str_of nodes
     (BinaryOperator Subtraction
        (BinaryOperator Multiplication (Leaf ''a'' False [] []) (Leaf ''b'' False [] []) [] [])
        (Leaf ''c'' False [] []) [] [])
   = ''(a * b) - c''
   \<and> \<not> omitting_changes_parse_left Subtraction Multiplication"
  by (simp add: nodes_def omitting_changes_parse_left_def)

text \<open>
  C9, amended.  The classes that inherit \<^verbatim>\<open>__str__\<close> print the left child, the name
  of the operator and the right child.  A child that is a binary operator is put in
  brackets unless it is exempt: on the left a child of the parent's own class, a
  product under a division, a sum under a difference, and every child of a sum; on
  the right a product or a quotient under a product, and every child of a sum.
  \<^verbatim>\<open>Addition(Multiplication(a, b), c)\<close> prints as \<^verbatim>\<open>a * b + c\<close> and
  \<^verbatim>\<open>Multiplication(Addition(a, b), c)\<close> as \<^verbatim>\<open>(a + b) * c\<close>.
\<close>

theorem str_brackets:
  "(k \<in> set [Power, Addition, Subtraction, Multiplication, MatrixMultiplication, Division, Inner]
      \<longrightarrow>
      str_of P (BinaryOperator k l r d a) =
        (if is_BinaryOperator l
            \<and> \<not> (kind_of l = Some k
                 \<or> (kind_of l = Some Multiplication \<and> k = Division)
                 \<or> (kind_of l = Some Addition \<and> k = Subtraction)
                 \<or> k = Addition)
         then ''('' @ str_of P l @ '')'' else str_of P l)
        @ '' '' @ name_of k @ '' '' @
        (if is_BinaryOperator r
            \<and> \<not> ((k = Multiplication
                    \<and> (kind_of r = Some Multiplication \<or> kind_of r = Some Division))
                 \<or> k = Addition)
         then ''('' @ str_of P r @ '')'' else str_of P r))
   \<and> str_of nodes
        (BinaryOperator Addition
           (BinaryOperator Multiplication (Leaf ''a'' False [] []) (Leaf ''b'' False [] []) [] [])
           (Leaf ''c'' False [] []) [] [])
      = ''a * b + c''
   \<and> str_of nodes
        (BinaryOperator Multiplication
           (BinaryOperator Addition (Leaf ''a'' False [] []) (Leaf ''b'' False [] []) [] [])
           (Leaf ''c'' False [] []) [] [])
      = ''(a + b) * c''"
proof -
  have names: "name_of Multiplication = ''*''" "name_of Division = ''/''"
    "name_of Addition = ''+''" "name_of Subtraction = ''-''"
    by simp_all
  have left: "is_BinaryOperator l \<Longrightarrow>
      (name l = name_of k \<or> (name l = ''*'' \<and> name_of k = ''/'')
        \<or> (name l = ''+'' \<and> name_of k = ''-'') \<or> name_of k = ''+'')
      \<longleftrightarrow> (kind_of l = Some k \<or> (kind_of l = Some Multiplication \<and> k = Division)
        \<or> (kind_of l = Some Addition \<and> k = Subtraction) \<or> k = Addition)"
    using name_kind_of [of l] name_of_eq [of k] by (metis names)
  have right: "is_BinaryOperator r \<Longrightarrow>
      ((name_of k = ''*'' \<and> name r \<in> set [''*'', ''/'']) \<or> name_of k = ''+'')
      \<longleftrightarrow> ((k = Multiplication
            \<and> (kind_of r = Some Multiplication \<or> kind_of r = Some Division))
          \<or> k = Addition)"
    using name_kind_of [of r] name_of_eq [of k] names by (simp del: name_of.simps) metis
  have general:
    "k \<in> set [Power, Addition, Subtraction, Multiplication, MatrixMultiplication, Division, Inner]
      \<longrightarrow>
      str_of P (BinaryOperator k l r d a) =
        (if is_BinaryOperator l
            \<and> \<not> (kind_of l = Some k
                 \<or> (kind_of l = Some Multiplication \<and> k = Division)
                 \<or> (kind_of l = Some Addition \<and> k = Subtraction)
                 \<or> k = Addition)
         then ''('' @ str_of P l @ '')'' else str_of P l)
        @ '' '' @ name_of k @ '' '' @
        (if is_BinaryOperator r
            \<and> \<not> ((k = Multiplication
                    \<and> (kind_of r = Some Multiplication \<or> kind_of r = Some Division))
                 \<or> k = Addition)
         then ''('' @ str_of P r @ '')'' else str_of P r)"
  proof
    assume k: "k \<in> set [Power, Addition, Subtraction, Multiplication, MatrixMultiplication,
      Division, Inner]"
    then have base: "k \<noteq> EqualHeaviside" "k \<noteq> NotEqualHeaviside" "k \<noteq> Modulo"
      "k \<noteq> Minimum" "k \<noteq> Maximum"
      by auto
    show "str_of P (BinaryOperator k l r d a) =
        (if is_BinaryOperator l
            \<and> \<not> (kind_of l = Some k
                 \<or> (kind_of l = Some Multiplication \<and> k = Division)
                 \<or> (kind_of l = Some Addition \<and> k = Subtraction)
                 \<or> k = Addition)
         then ''('' @ str_of P l @ '')'' else str_of P l)
        @ '' '' @ name_of k @ '' '' @
        (if is_BinaryOperator r
            \<and> \<not> ((k = Multiplication
                    \<and> (kind_of r = Some Multiplication \<or> kind_of r = Some Division))
                 \<or> k = Addition)
         then ''('' @ str_of P r @ '')'' else str_of P r)"
    proof (cases "is_BinaryOperator l"; cases "is_BinaryOperator r")
      assume "is_BinaryOperator l" "is_BinaryOperator r"
      then show ?thesis
        using base left right by (simp add: Let_def del: name_of.simps set_simps)
    next
      assume "is_BinaryOperator l" "\<not> is_BinaryOperator r"
      then show ?thesis
        using base left by (simp add: Let_def del: name_of.simps set_simps)
    next
      assume "\<not> is_BinaryOperator l" "is_BinaryOperator r"
      then show ?thesis
        using base right by (simp add: Let_def del: name_of.simps set_simps)
    next
      assume "\<not> is_BinaryOperator l" "\<not> is_BinaryOperator r"
      then show ?thesis
        using base by (simp add: Let_def del: name_of.simps set_simps)
    qed
  qed
  show ?thesis
    using general by (simp add: nodes_def del: set_simps)
qed

theorem str_brackets_witness:
  "str_of nodes
     (BinaryOperator Division
        (BinaryOperator Multiplication (Leaf ''a'' False [] []) (Leaf ''b'' False [] []) [] [])
        (BinaryOperator Division (Leaf ''c'' False [] []) (Leaf ''d'' False [] []) [] [])
        [] [])
   = ''a * b / (c / d)''"
  using str_brackets [of Division nodes
      "BinaryOperator Multiplication (Leaf ''a'' False [] []) (Leaf ''b'' False [] []) [] []"
      "BinaryOperator Division (Leaf ''c'' False [] []) (Leaf ''d'' False [] []) [] []"
      "[]" "[]"]
  by (simp add: nodes_def)

end
